theory Spec2Isabelle
  imports Main "HOL-Library.Sublist"
begin

section \<open>Values, errors and the libraries the provider calls\<close>

text \<open>
  Go's \<open>interface{}\<close> values, as far as the mappers handle them: nil, a string, a
  list and a map. A Go \<open>map[string]interface{}\<close> is an association list with distinct
  keys; the mappers only pass maps on, so the order of the entries plays no role. A nil
  map is \<open>None\<close>, an allocated one \<open>Some m\<close>.
\<close>

datatype val = VNil | VStr string | VList "val list" | VMap "(string \<times> val) list"

type_synonym gomap = "(string \<times> val) list"

datatype error = Error string

text \<open>
  Modelled from the spec: \<open>contains\<close>, a utility of the provider that is defined outside the
  files verified here. The specification reads the call as "the context's variant is one of the
  encrypted kinds", that is membership in the slice.
\<close>

definition contains :: "string list \<Rightarrow> string \<Rightarrow> bool" where
  "contains xs x = (x \<in> set xs)"

section \<open>The Context resource\<close>

definition contextConfig :: string where "contextConfig = ''config''"
definition contextSecret :: string where "contextSecret = ''secret''"
definition contextYaml :: string where "contextYaml = ''yaml''"
definition contextSecretYaml :: string where "contextSecretYaml = ''secret-yaml''"
definition contextGoogleStorage :: string where "contextGoogleStorage = ''storage.gc''"
definition contextS3Storage :: string where "contextS3Storage = ''storage.s3''"
definition contextAzureStorage :: string where "contextAzureStorage = ''storage.azuref''"

definition encryptedContextTypes :: "string list" where
  "encryptedContextTypes =
     [contextSecret, contextSecretYaml, contextS3Storage, contextAzureStorage]"

text \<open>The API object \<open>cfclient.Context\<close>: a name, a type and the data map.\<close>

record ContextSpec =
  cs_Type :: string
  cs_Data :: "gomap option"

record ContextMetadata =
  cm_Name :: string

record Context =
  ctx_Metadata :: ContextMetadata
  ctx_Spec :: ContextSpec

text \<open>
  The resource data of a context, shaped by the schema of \<open>resourceContext\<close>: \<open>name\<close>,
  \<open>decrypt_spec\<close> and the list \<open>spec\<close> (at most one block). A spec block has one
  list per variant; each holds at most one block, whose only field is \<open>data\<close>, so a
  variant block is written as its data: a map for config and secret, a string for the two
  YAML variants, a list for the storage variants. The fields stand for the keys that
  \<open>MustNormalizeFieldName\<close> makes of the seven type names, one key for each type.
\<close>

record context_spec_block =
  sb_config :: "gomap list"
  sb_secret :: "gomap list"
  sb_yaml :: "string list"
  sb_secret_yaml :: "string list"
  sb_storage_gc :: "val list list"
  sb_storage_s3 :: "val list list"
  sb_storage_azuref :: "val list list"

record context_resource =
  rd_name :: string
  rd_decrypt_spec :: bool
  rd_spec :: "context_spec_block list"

text \<open>
  What the context mappers call outside the files verified here: the YAML library (a call
  returns an error or a value) and the storage converters of the provider's
  \<open>context\<close> package. They are parameters of the model.
\<close>

record context_lib =
  yaml_Unmarshal :: "string \<Rightarrow> error + gomap option"
  yaml_Marshal :: "gomap option \<Rightarrow> error + string"
  ConvertJsonConfigStorageContext :: "val list \<Rightarrow> gomap option"
  ConvertAzureStorageContext :: "val list \<Rightarrow> gomap option"
  FlattenJsonConfigStorageContextConfig :: "ContextSpec \<Rightarrow> val list list"
  FlattenAzureStorageContextConfig :: "ContextSpec \<Rightarrow> val list list"

text \<open>
  \<open>d.GetOk("spec.0.<variant>.0.data")\<close>: the data of the first block of the variant in
  the first spec block, when it is there and is not the zero value of its type (the empty
  map, string or list).
\<close>

definition GetOk_data ::
  "(context_spec_block \<Rightarrow> 'a list list) \<Rightarrow> context_resource \<Rightarrow> 'a list option" where
  "GetOk_data variant d =
     (case rd_spec d of
        [] \<Rightarrow> None
      | s # _ \<Rightarrow>
          (case variant s of
             [] \<Rightarrow> None
           | v # _ \<Rightarrow> if v = [] then None else Some v))"

definition getContextTypeFromResource :: "context_resource \<Rightarrow> string" where
  "getContextTypeFromResource d =
     (if GetOk_data sb_config d \<noteq> None then contextConfig
      else if GetOk_data sb_secret d \<noteq> None then contextSecret
      else if GetOk_data sb_yaml d \<noteq> None then contextYaml
      else if GetOk_data sb_secret_yaml d \<noteq> None then contextSecretYaml
      else if GetOk_data sb_storage_gc d \<noteq> None then contextGoogleStorage
      else if GetOk_data sb_storage_s3 d \<noteq> None then contextS3Storage
      else if GetOk_data sb_storage_azuref d \<noteq> None then contextAzureStorage
      else '''')"

text \<open>
  \<open>mapResourceToContext\<close>. The error of \<open>yaml.Unmarshal\<close> is assigned to \<open>_\<close>: when the
  call fails the data stays the nil map it was declared as.
\<close>

definition unmarshal_or_nil :: "context_lib \<Rightarrow> string \<Rightarrow> gomap option" where
  "unmarshal_or_nil lib s =
     (case yaml_Unmarshal lib s of Inl _ \<Rightarrow> None | Inr m \<Rightarrow> m)"

definition normalizedContext :: "context_lib \<Rightarrow> context_resource \<Rightarrow> string \<times> gomap option" where
  "normalizedContext lib d =
     (case GetOk_data sb_config d of
        Some m \<Rightarrow> (contextConfig, Some m)
      | None \<Rightarrow>
     (case GetOk_data sb_secret d of
        Some m \<Rightarrow> (contextSecret, Some m)
      | None \<Rightarrow>
     (case GetOk_data sb_yaml d of
        Some s \<Rightarrow> (contextYaml, unmarshal_or_nil lib s)
      | None \<Rightarrow>
     (case GetOk_data sb_secret_yaml d of
        Some s \<Rightarrow> (contextSecretYaml, unmarshal_or_nil lib s)
      | None \<Rightarrow>
     (case GetOk_data sb_storage_gc d of
        Some l \<Rightarrow> (contextGoogleStorage, ConvertJsonConfigStorageContext lib l)
      | None \<Rightarrow>
     (case GetOk_data sb_storage_s3 d of
        Some l \<Rightarrow> (contextS3Storage, ConvertJsonConfigStorageContext lib l)
      | None \<Rightarrow>
     (case GetOk_data sb_storage_azuref d of
        Some l \<Rightarrow> (contextAzureStorage, ConvertAzureStorageContext lib l)
      | None \<Rightarrow> ('''', None))))))))"

definition mapResourceToContext :: "context_lib \<Rightarrow> context_resource \<Rightarrow> Context" where
  "mapResourceToContext lib d =
     \<lparr>ctx_Metadata = \<lparr>cm_Name = rd_name d\<rparr>,
      ctx_Spec = \<lparr>cs_Type = fst (normalizedContext lib d),
                  cs_Data = snd (normalizedContext lib d)\<rparr>\<rparr>"

text \<open>
  The flatteners. A map \<open>m\<close> with the one key of the variant becomes a spec block with
  that variant set and every other variant absent.
\<close>

definition no_variant :: context_spec_block where
  "no_variant =
     \<lparr>sb_config = [], sb_secret = [], sb_yaml = [], sb_secret_yaml = [],
      sb_storage_gc = [], sb_storage_s3 = [], sb_storage_azuref = []\<rparr>"

definition flattenContextConfig :: "ContextSpec \<Rightarrow> gomap list" where
  "flattenContextConfig spec = [case cs_Data spec of None \<Rightarrow> [] | Some m \<Rightarrow> m]"

definition flattenContextYaml :: "context_lib \<Rightarrow> ContextSpec \<Rightarrow> string list" where
  "flattenContextYaml lib spec =
     (case yaml_Marshal lib (cs_Data spec) of Inl _ \<Rightarrow> [] | Inr s \<Rightarrow> [s])"

definition flattenContextSpec :: "context_lib \<Rightarrow> ContextSpec \<Rightarrow> context_spec_block list" where
  "flattenContextSpec lib spec =
     (if cs_Type spec = contextConfig
        then [no_variant\<lparr>sb_config := flattenContextConfig spec\<rparr>]
      else if cs_Type spec = contextSecret
        then [no_variant\<lparr>sb_secret := flattenContextConfig spec\<rparr>]
      else if cs_Type spec = contextYaml
        then [no_variant\<lparr>sb_yaml := flattenContextYaml lib spec\<rparr>]
      else if cs_Type spec = contextSecretYaml
        then [no_variant\<lparr>sb_secret_yaml := flattenContextYaml lib spec\<rparr>]
      else if cs_Type spec = contextGoogleStorage
        then [no_variant\<lparr>sb_storage_gc := FlattenJsonConfigStorageContextConfig lib spec\<rparr>]
      else if cs_Type spec = contextS3Storage
        then [no_variant\<lparr>sb_storage_s3 := FlattenJsonConfigStorageContextConfig lib spec\<rparr>]
      else if cs_Type spec = contextAzureStorage
        then [no_variant\<lparr>sb_storage_azuref := FlattenAzureStorageContextConfig lib spec\<rparr>]
      else [])"

text \<open>
  \<open>d.Set\<close> on \<open>name\<close> and on \<open>spec\<close>. The plugin SDK refuses a value that does not
  fit the schema; the records above hold only values that fit, so both calls succeed. The
  result stays a sum, as in the source, where each call is followed by its error check.
\<close>

definition Set_name :: "string \<Rightarrow> context_resource \<Rightarrow> error + context_resource" where
  "Set_name n d = Inr (d\<lparr>rd_name := n\<rparr>)"

definition Set_spec :: "context_spec_block list \<Rightarrow> context_resource \<Rightarrow> error + context_resource" where
  "Set_spec s d = Inr (d\<lparr>rd_spec := s\<rparr>)"

definition mapContextToResource ::
  "context_lib \<Rightarrow> Context \<Rightarrow> context_resource \<Rightarrow> error + context_resource" where
  "mapContextToResource lib c d =
     (case Set_name (cm_Name (ctx_Metadata c)) d of
        Inl err \<Rightarrow> Inl err
      | Inr d1 \<Rightarrow>
          (let currentContextType = getContextTypeFromResource d1 in
           if rd_decrypt_spec d1 \<or> \<not> contains encryptedContextTypes currentContextType
           then (case Set_spec (flattenContextSpec lib (ctx_Spec c)) d1 of
                   Inl err \<Rightarrow> Inl err
                 | Inr d2 \<Rightarrow> Inr d2)
           else Inr d1))"

text \<open>
  The variants in the order in which the mappers look for them, and whether the data of a
  variant is set in a resource.
\<close>

definition contextPrecedence :: "string list" where
  "contextPrecedence =
     [contextConfig, contextSecret, contextYaml, contextSecretYaml,
      contextGoogleStorage, contextS3Storage, contextAzureStorage]"

definition variant_populated :: "context_resource \<Rightarrow> string \<Rightarrow> bool" where
  "variant_populated d k =
     (if k = contextConfig then GetOk_data sb_config d \<noteq> None
      else if k = contextSecret then GetOk_data sb_secret d \<noteq> None
      else if k = contextYaml then GetOk_data sb_yaml d \<noteq> None
      else if k = contextSecretYaml then GetOk_data sb_secret_yaml d \<noteq> None
      else if k = contextGoogleStorage then GetOk_data sb_storage_gc d \<noteq> None
      else if k = contextS3Storage then GetOk_data sb_storage_s3 d \<noteq> None
      else if k = contextAzureStorage then GetOk_data sb_storage_azuref d \<noteq> None
      else False)"

text \<open>
  A resource that populates exactly one variant: its spec is one block, that block holds
  one variant block in all, and the data of that variant block is set.
\<close>

definition populates_one_variant :: "context_resource \<Rightarrow> bool" where
  "populates_one_variant d =
     (case rd_spec d of
        [s] \<Rightarrow>
          length (sb_config s) + length (sb_secret s) + length (sb_yaml s) +
          length (sb_secret_yaml s) + length (sb_storage_gc s) + length (sb_storage_s3 s) +
          length (sb_storage_azuref s) = 1 \<and>
          getContextTypeFromResource d \<noteq> ''''
      | _ \<Rightarrow> False)"

text \<open>
  The data of a resource is stable under the libraries when writing out what was read
  gives the data back: marshalling the parsed YAML string returns that string, and the
  storage flattener returns the one block the storage converter was given.
\<close>

definition yaml_stable :: "context_lib \<Rightarrow> string option \<Rightarrow> bool" where
  "yaml_stable lib v =
     (case v of
        None \<Rightarrow> True
      | Some s \<Rightarrow> yaml_Marshal lib (unmarshal_or_nil lib s) = Inr s)"

definition data_stable :: "context_lib \<Rightarrow> context_resource \<Rightarrow> bool" where
  "data_stable lib d =
     (yaml_stable lib (GetOk_data sb_yaml d) \<and>
      yaml_stable lib (GetOk_data sb_secret_yaml d) \<and>
      (case GetOk_data sb_storage_gc d of
         None \<Rightarrow> True
       | Some l \<Rightarrow>
           FlattenJsonConfigStorageContextConfig lib
             \<lparr>cs_Type = contextGoogleStorage,
              cs_Data = ConvertJsonConfigStorageContext lib l\<rparr> = [l]) \<and>
      (case GetOk_data sb_storage_s3 d of
         None \<Rightarrow> True
       | Some l \<Rightarrow>
           FlattenJsonConfigStorageContextConfig lib
             \<lparr>cs_Type = contextS3Storage,
              cs_Data = ConvertJsonConfigStorageContext lib l\<rparr> = [l]) \<and>
      (case GetOk_data sb_storage_azuref d of
         None \<Rightarrow> True
       | Some l \<Rightarrow>
           FlattenAzureStorageContextConfig lib
             \<lparr>cs_Type = contextAzureStorage,
              cs_Data = ConvertAzureStorageContext lib l\<rparr> = [l]))"

subsection \<open>A YAML library for one-line documents\<close>

text \<open>
  The properties below hold for every behaviour of the YAML library and of the storage
  converters. To run the mappers on concrete resources, the library is instantiated on
  the documents that consist of one line \<open>key: value\<close>, with or without the final
  newline: \<open>Unmarshal\<close> reads such a line into a map of one entry and reports an error
  for a text without a key; \<open>Marshal\<close> writes a map of one string entry as
  \<open>key: value\<close> followed by a newline, and the nil map as \<open>null\<close> followed by a
  newline. On the texts used below (\<open>a: b\<close>, which the provider's library also reads
  as the map of \<open>a\<close> to \<open>b\<close> and writes back with a final newline, and \<open>a b\<close>,
  which is no map and so fails to unmarshal into one) it behaves as that library does.
  The storage converters of the instance wrap the data list under the key \<open>auth\<close> and
  unwrap it again.
\<close>

definition newline :: char where
  "newline = CHR 0x0A"

definition chomp :: "string \<Rightarrow> string" where
  "chomp s = (if s \<noteq> [] \<and> last s = newline then butlast s else s)"

fun split_key :: "string \<Rightarrow> string \<Rightarrow> (string \<times> string) option" where
  "split_key k [] = None"
| "split_key k [c] = None"
| "split_key k (c # c' # cs) =
     (if c = CHR '':'' \<and> c' = CHR '' '' then Some (rev k, cs)
      else split_key (c # k) (c' # cs))"

definition line_Unmarshal :: "string \<Rightarrow> error + gomap option" where
  "line_Unmarshal s =
     (case split_key [] (chomp s) of
        None \<Rightarrow> Inl (Error ''yaml: cannot unmarshal'')
      | Some (k, v) \<Rightarrow>
          if k = [] \<or> newline \<in> set (k @ v) then Inl (Error ''yaml: cannot unmarshal'')
          else Inr (Some [(k, VStr v)]))"

definition line_Marshal :: "gomap option \<Rightarrow> error + string" where
  "line_Marshal m =
     (case m of
        None \<Rightarrow> Inr (''null'' @ [newline])
      | Some [(k, VStr v)] \<Rightarrow> Inr (k @ '': '' @ v @ [newline])
      | Some _ \<Rightarrow> Inl (Error ''yaml: cannot marshal''))"

definition line_lib :: context_lib where
  "line_lib =
     \<lparr>yaml_Unmarshal = line_Unmarshal,
      yaml_Marshal = line_Marshal,
      ConvertJsonConfigStorageContext = (\<lambda>l. Some [(''auth'', VList l)]),
      ConvertAzureStorageContext = (\<lambda>l. Some [(''auth'', VList l)]),
      FlattenJsonConfigStorageContextConfig =
        (\<lambda>spec. case cs_Data spec of Some [(k, VList l)] \<Rightarrow> [l] | _ \<Rightarrow> []),
      FlattenAzureStorageContextConfig =
        (\<lambda>spec. case cs_Data spec of Some [(k, VList l)] \<Rightarrow> [l] | _ \<Rightarrow> [])\<rparr>"

text \<open>Resources with one variant each, for the examples.\<close>

definition resource_with :: "bool \<Rightarrow> context_spec_block \<Rightarrow> context_resource" where
  "resource_with decrypt s = \<lparr>rd_name = ''ctx'', rd_decrypt_spec = decrypt, rd_spec = [s]\<rparr>"

definition config_resource :: context_resource where
  "config_resource = resource_with True (no_variant\<lparr>sb_config := [[(''k'', VStr ''v'')]]\<rparr>)"

definition secret_resource :: "bool \<Rightarrow> context_resource" where
  "secret_resource decrypt =
     resource_with decrypt (no_variant\<lparr>sb_secret := [[(''k'', VStr ''v'')]]\<rparr>)"

definition yaml_resource :: "string \<Rightarrow> context_resource" where
  "yaml_resource s = resource_with True (no_variant\<lparr>sb_yaml := [s]\<rparr>)"

definition secret_yaml_resource :: "bool \<Rightarrow> string \<Rightarrow> context_resource" where
  "secret_yaml_resource decrypt s =
     resource_with decrypt (no_variant\<lparr>sb_secret_yaml := [s]\<rparr>)"

definition storage_s3_resource :: "bool \<Rightarrow> context_resource" where
  "storage_s3_resource decrypt =
     resource_with decrypt (no_variant\<lparr>sb_storage_s3 := [[VStr ''bucket'']]\<rparr>)"

section \<open>The Permission resource\<close>

text \<open>The API object \<open>cfclient.Permission\<close>.\<close>

record Permission =
  pm_ID :: string
  pm_Team :: string
  pm_Action :: string
  pm_Resource :: string
  pm_RelatedResource :: string
  pm_RuleType :: string
  pm_Tags :: "string list"

text \<open>
  The resource data of a permission: the identity \<open>d.Id()\<close>, the fields of the schema
  (\<open>tags\<close> as the list that \<open>Set.List()\<close> returns) and the keys whose value differs
  between the prior state and the plan, which is what \<open>HasChange\<close> reports.
\<close>

record permission_resource =
  pr_Id :: string
  pr_id_field :: string
  pr_team :: string
  pr_resource :: string
  pr_related_resource :: string
  pr_action :: string
  pr_rule_type :: string
  pr_tags :: "string list"
  pr_changed :: "string list"

definition HasChange :: "permission_resource \<Rightarrow> string \<Rightarrow> bool" where
  "HasChange d k = (k \<in> set (pr_changed d))"

definition HasChanges :: "permission_resource \<Rightarrow> string list \<Rightarrow> bool" where
  "HasChanges d ks = list_ex (HasChange d) ks"

text \<open>A word between single quotes, as the error messages write it.\<close>

definition quoted :: "string \<Rightarrow> string" where
  "quoted s = [CHR 0x27] @ s @ [CHR 0x27]"

definition resourcePermissionCustomDiff :: "permission_resource \<Rightarrow> error option" where
  "resourcePermissionCustomDiff diff =
     (if HasChanges diff [''resource'', ''related_resource''] \<and>
         pr_related_resource diff \<noteq> '''' \<and> pr_resource diff \<noteq> ''pipeline''
      then Some (Error (''related_resource is only valid when resource is '' @
                        quoted ''pipeline''))
      else if HasChanges diff [''resource'', ''action''] \<and>
         pr_action diff \<in> set [''run'', ''approve'', ''debug''] \<and>
         pr_resource diff \<noteq> ''pipeline''
      then Some (Error (''action '' @ pr_action diff @
                        '' is only valid when resource is '' @ quoted ''pipeline''))
      else None)"

text \<open>
  \<open>mapResourceToPermission\<close>. \<open>datautil.ConvertStringArr\<close> turns the list of
  \<open>interface{}\<close> into the list of the strings they hold; the tags are strings already.
\<close>

definition mapResourceToPermission :: "permission_resource \<Rightarrow> Permission" where
  "mapResourceToPermission d =
     \<lparr>pm_ID = pr_Id d,
      pm_Team = pr_team d,
      pm_Action = pr_action d,
      pm_Resource = pr_resource d,
      pm_RelatedResource = pr_related_resource d,
      pm_RuleType = pr_rule_type d,
      pm_Tags = (if length (pr_tags d) > 0 then pr_tags d else [''*'', ''untagged''])\<rparr>"

definition mapPermissionToResource ::
  "Permission \<Rightarrow> permission_resource \<Rightarrow> error + permission_resource" where
  "mapPermissionToResource permission d =
     Inr (d\<lparr>pr_id_field := pm_ID permission,
            pr_team := pm_Team permission,
            pr_action := pm_Action permission,
            pr_resource := pm_Resource permission,
            pr_related_resource := pm_RelatedResource permission,
            pr_tags := pm_Tags permission,
            pr_rule_type := pm_RuleType permission\<rparr>)"

text \<open>
  The API client of the permissions is a parameter: what the service answers to each
  call. A call that returns a pointer answers \<open>None\<close> for nil. Every operation of the
  resource returns its result together with the calls it made, in order.
\<close>

record permission_client =
  CreatePermission :: "Permission \<Rightarrow> error + Permission option"
  GetPermissionByID :: "string \<Rightarrow> error + Permission option"
  UpdatePermissionTags :: "Permission \<Rightarrow> error option"
  DeletePermission :: "string \<Rightarrow> error option"

datatype api_call =
    CallCreatePermission Permission
  | CallGetPermissionByID string
  | CallUpdatePermissionTags Permission
  | CallDeletePermission string

definition nil_dereference :: error where
  "nil_dereference = Error ''invalid memory address or nil pointer dereference''"

definition resourcePermissionRead ::
  "permission_client \<Rightarrow> permission_resource \<Rightarrow> (error + permission_resource) \<times> api_call list" where
  "resourcePermissionRead client d =
     (let permissionID = pr_Id d in
      if permissionID = '''' then (Inr (d\<lparr>pr_Id := ''''\<rparr>), [])
      else
        (case GetPermissionByID client permissionID of
           Inl err \<Rightarrow> (Inl err, [CallGetPermissionByID permissionID])
         | Inr None \<Rightarrow> (Inl nil_dereference, [CallGetPermissionByID permissionID])
         | Inr (Some permission) \<Rightarrow>
             (mapPermissionToResource permission d, [CallGetPermissionByID permissionID])))"

definition resourcePermissionDelete ::
  "permission_client \<Rightarrow> permission_resource \<Rightarrow> error option \<times> api_call list" where
  "resourcePermissionDelete client d =
     (DeletePermission client (pr_Id d), [CallDeletePermission (pr_Id d)])"

definition resourcePermissionCreate ::
  "permission_client \<Rightarrow> permission_resource \<Rightarrow> (error + permission_resource) \<times> api_call list" where
  "resourcePermissionCreate client d =
     (let permission = mapResourceToPermission d in
      case CreatePermission client permission of
        Inl err \<Rightarrow> (Inl err, [CallCreatePermission permission])
      | Inr None \<Rightarrow>
          (Inl (Error ''resourcePermissionCreate - failed to create permission, empty response''),
           [CallCreatePermission permission])
      | Inr (Some newPermission) \<Rightarrow>
          (let r = resourcePermissionRead client (d\<lparr>pr_Id := pm_ID newPermission\<rparr>)
           in (fst r, CallCreatePermission permission # snd r)))"

text \<open>
  \<open>resourcePermissionUpdate\<close>. The error of the delete is written to the log and
  dropped; the model drops it as well.
\<close>

definition resourcePermissionUpdate ::
  "permission_client \<Rightarrow> permission_resource \<Rightarrow> (error + permission_resource) \<times> api_call list" where
  "resourcePermissionUpdate client d =
     (let permission = mapResourceToPermission d in
      if HasChanges d [''team'', ''action'', ''related_resource'', ''resource'', ''rule_type'']
      then
        (let deleted = resourcePermissionDelete client d in
         case CreatePermission client permission of
           Inl err \<Rightarrow> (Inl err, snd deleted @ [CallCreatePermission permission])
         | Inr None \<Rightarrow> (Inl nil_dereference, snd deleted @ [CallCreatePermission permission])
         | Inr (Some resp) \<Rightarrow>
             (let r = resourcePermissionRead client (d\<lparr>pr_Id := pm_ID resp\<rparr>)
              in (fst r, snd deleted @ [CallCreatePermission permission] @ snd r)))
      else if HasChange d ''tags''
      then
        (case UpdatePermissionTags client permission of
           Some err \<Rightarrow> (Inl err, [CallUpdatePermissionTags permission])
         | None \<Rightarrow>
             (let r = resourcePermissionRead client d
              in (fst r, CallUpdatePermissionTags permission # snd r)))
      else resourcePermissionRead client d)"

text \<open>Counting the calls of one kind, and the permissions that calls send out.\<close>

fun is_delete :: "api_call \<Rightarrow> bool" where
  "is_delete (CallDeletePermission _) = True"
| "is_delete _ = False"

fun is_create :: "api_call \<Rightarrow> bool" where
  "is_create (CallCreatePermission _) = True"
| "is_create _ = False"

fun is_update_tags :: "api_call \<Rightarrow> bool" where
  "is_update_tags (CallUpdatePermissionTags _) = True"
| "is_update_tags _ = False"

fun sent_permission :: "api_call \<Rightarrow> Permission option" where
  "sent_permission (CallCreatePermission p) = Some p"
| "sent_permission (CallUpdatePermissionTags p) = Some p"
| "sent_permission _ = None"

definition sent_permissions :: "api_call list \<Rightarrow> Permission list" where
  "sent_permissions calls = List.map_filter sent_permission calls"

text \<open>A service for the examples: it stores nothing and answers every call with success.\<close>

definition echo_client :: permission_client where
  "echo_client =
     \<lparr>CreatePermission = (\<lambda>p. Inr (Some (p\<lparr>pm_ID := ''new-id''\<rparr>))),
      GetPermissionByID = (\<lambda>i. Inr (Some
         \<lparr>pm_ID = i, pm_Team = ''t'', pm_Action = ''read'', pm_Resource = ''pipeline'',
          pm_RelatedResource = '''', pm_RuleType = ''any'', pm_Tags = [''*'']\<rparr>)),
      UpdatePermissionTags = (\<lambda>p. None),
      DeletePermission = (\<lambda>i. None)\<rparr>"

definition failing_delete_client :: permission_client where
  "failing_delete_client =
     echo_client\<lparr>DeletePermission := (\<lambda>i. Some (Error ''500 Internal Server Error, ''))\<rparr>"

definition example_permission :: "string list \<Rightarrow> string list \<Rightarrow> permission_resource" where
  "example_permission tags changed =
     \<lparr>pr_Id = ''old-id'', pr_id_field = ''old-id'', pr_team = ''team-1'',
      pr_resource = ''pipeline'', pr_related_resource = '''', pr_action = ''run'',
      pr_rule_type = ''any'', pr_tags = tags, pr_changed = changed\<rparr>"

section \<open>The API client\<close>

record Client =
  Token :: string
  Host :: string

record RequestOptions =
  Path :: string
  Method :: string
  Body :: string
  QS :: "(string \<times> string) list option"

text \<open>
  \<open>QS\<close> is a Go map with string keys, nil when \<open>None\<close>. \<open>ToQS\<close> ranges over it, and
  the order of a range over a map is not fixed, so the map is given as its entries in the
  order in which the range visits them.
\<close>

fun join :: "string \<Rightarrow> string list \<Rightarrow> string" where
  "join sep [] = []"
| "join sep [x] = x"
| "join sep (x # y # ys) = x @ sep @ join sep (y # ys)"

definition ToQS :: "(string \<times> string) list \<Rightarrow> string" where
  "ToQS qs = ''?'' @ join ''&'' (map (\<lambda>(k, v). k @ ''='' @ v) qs)"

text \<open>
  A request as \<open>RequestAPI\<close> hands it to the transport, and the response it gets back.
  The body of a response is what reading it to the end returns: the bytes or an error.
\<close>

record Request =
  rq_Method :: string
  rq_URL :: string
  rq_Body :: string
  rq_Header :: "(string \<times> string) list"

record Response =
  StatusCode :: int
  Status :: string
  rs_Body :: "error + string"

text \<open>
  The HTTP library is a parameter: \<open>NewRequest\<close> may refuse the method or the URL, and
  \<open>Do\<close> answers a request with a response or a transport error.
\<close>

record http_lib =
  NewRequest :: "string \<Rightarrow> string \<Rightarrow> error option"
  Do :: "Request \<Rightarrow> error + Response"

definition Header_Set :: "string \<Rightarrow> string \<Rightarrow> (string \<times> string) list \<Rightarrow> (string \<times> string) list" where
  "Header_Set k v h = filter (\<lambda>kv. fst kv \<noteq> k) h @ [(k, v)]"

text \<open>\<open>%v\<close> of an integer: its decimal digits.\<close>

fun decimal :: "nat \<Rightarrow> string" where
  "decimal n =
     (if n < 10 then [''0123456789'' ! n]
      else decimal (n div 10) @ [''0123456789'' ! (n mod 10)])"

declare decimal.simps [simp del]

definition format_int :: "int \<Rightarrow> string" where
  "format_int i = (if i < 0 then ''-'' @ decimal (nat (- i)) else decimal (nat i))"

definition finalURL :: "Client \<Rightarrow> RequestOptions \<Rightarrow> string" where
  "finalURL client opt =
     (case QS opt of
        None \<Rightarrow> Host client @ Path opt
      | Some qs \<Rightarrow> (Host client @ Path opt) @ ToQS qs)"

text \<open>
  The request that \<open>RequestAPI\<close> builds: \<open>http.NewRequest\<close> on the method, the
  final URL and the body, then the two headers.
\<close>

definition request_of :: "Client \<Rightarrow> RequestOptions \<Rightarrow> Request" where
  "request_of client opt =
     \<lparr>rq_Method = Method opt, rq_URL = finalURL client opt, rq_Body = Body opt,
      rq_Header =
        Header_Set ''Content-Type'' ''application/json; charset=utf-8''
          (Header_Set ''Authorization'' (Token client) [])\<rparr>"

text \<open>
  \<open>RequestAPI\<close> returns the bytes or the error, and with them the requests it handed to
  the transport.
\<close>

definition RequestAPI ::
  "http_lib \<Rightarrow> Client \<Rightarrow> RequestOptions \<Rightarrow> (error + string) \<times> Request list" where
  "RequestAPI http client opt =
     (case NewRequest http (Method opt) (finalURL client opt) of
        Some err \<Rightarrow> (Inl err, [])
      | None \<Rightarrow>
          (let request = request_of client opt
           in case Do http request of
                Inl err \<Rightarrow> (Inl err, [request])
              | Inr resp \<Rightarrow>
                  (case rs_Body resp of
                     Inl err \<Rightarrow>
                       (Inl (Error (''Failed to read body '' @ format_int (StatusCode resp) @
                                    '' '' @ Status resp)), [request])
                   | Inr body \<Rightarrow>
                       if StatusCode resp \<noteq> 200
                       then (Inl (Error (Status resp @ '', '' @ body)), [request])
                       else (Inr body, [request]))))"

text \<open>A transport for the examples: it accepts every request and answers all alike.\<close>

definition answering :: "Response \<Rightarrow> http_lib" where
  "answering resp = \<lparr>NewRequest = (\<lambda>m u. None), Do = (\<lambda>r. Inr resp)\<rparr>"

definition not_found :: Response where
  "not_found =
     \<lparr>StatusCode = 404, Status = ''404 Not Found'',
      rs_Body = Inr ''{\"message\":\"not found\"}''\<rparr>"

definition cut_off :: Response where
  "cut_off =
     \<lparr>StatusCode = 502, Status = ''502 Bad Gateway'',
      rs_Body = Inl (Error ''unexpected EOF'')\<rparr>"

definition cut_off_ok :: Response where
  "cut_off_ok =
     \<lparr>StatusCode = 200, Status = ''200 OK'',
      rs_Body = Inl (Error ''unexpected EOF'')\<rparr>"

definition found :: Response where
  "found = \<lparr>StatusCode = 200, Status = ''200 OK'', rs_Body = Inr ''{\"id\":\"1\"}''\<rparr>"

definition example_client :: Client where
  "example_client = \<lparr>Token = ''secret-token'', Host = ''https://g.codefresh.io/api''\<rparr>"

definition example_options :: RequestOptions where
  "example_options =
     \<lparr>Path = ''/pipelines'', Method = ''GET'', Body = '''',
      QS = Some [(''limit'', ''1 0''), (''q'', ''a&b'')]\<rparr>"

section \<open>The Pipeline resource\<close>

text \<open>
  The API object \<open>Pipeline\<close> of the client package. How \<open>SetVariables\<close> stores a map of
  variables is left open: its result has the type \<open>'v\<close>.
\<close>

record SpecTemplate =
  st_Location :: string
  st_Repo :: string
  st_Path :: string
  st_Revision :: string
  st_Context :: string

record 'v Trigger =
  tg_Name :: string
  tg_Description :: string
  tg_Type :: string
  tg_Repo :: string
  tg_BranchRegex :: string
  tg_ModifiedFilesGlob :: string
  tg_Provider :: string
  tg_Disabled :: bool
  tg_Context :: string
  tg_Events :: "string list"
  tg_Variables :: 'v

record 'v Spec =
  sp_SpecTemplate :: SpecTemplate
  sp_Priority :: int
  sp_Concurrency :: int
  sp_Variables :: 'v
  sp_Triggers :: "'v Trigger list"

record Labels =
  lb_Tags :: "string list"

record Metadata =
  md_Name :: string
  md_ProjectId :: string
  md_Labels :: Labels

record 'v Pipeline =
  pl_Metadata :: Metadata
  pl_Spec :: "'v Spec"

text \<open>
  The configuration of a pipeline, shaped by the schema of \<open>resourcePipeline\<close>. An
  optional field that the configuration omits is \<open>None\<close>; a required field is always
  there. Lists of blocks are lists; a map is empty when it is omitted.
\<close>

record spec_template_block =
  stb_location :: "string option"
  stb_repo :: string
  stb_path :: string
  stb_revision :: string
  stb_context :: "string option"

record trigger_block =
  tb_name :: "string option"
  tb_description :: "string option"
  tb_type :: "string option"
  tb_repo :: "string option"
  tb_branch_regex :: "string option"
  tb_modified_files_glob :: "string option"
  tb_events :: "string list"
  tb_provider :: "string option"
  tb_disabled :: "bool option"
  tb_context :: "string option"
  tb_variables :: gomap

record pipeline_spec_block =
  psb_priority :: "int option"
  psb_concurrency :: "int option"
  psb_spec_template :: "spec_template_block list"
  psb_variables :: gomap
  psb_trigger :: "trigger_block list"

record pipeline_resource =
  plr_name :: string
  plr_project_id :: "string option"
  plr_tags :: "string list"
  plr_spec :: "pipeline_spec_block list"

text \<open>The \<open>Default\<close> entries of the schema.\<close>

definition default_priority :: int where "default_priority = 0"
definition default_concurrency :: int where "default_concurrency = 0"
definition default_spec_template_location :: string where "default_spec_template_location = ''git''"
definition default_spec_template_context :: string where "default_spec_template_context = ''github''"
definition default_trigger_type :: string where "default_trigger_type = ''git''"
definition default_trigger_branch_regex :: string where "default_trigger_branch_regex = ''/.*/gi''"
definition default_trigger_modified_files_glob :: string where "default_trigger_modified_files_glob = ''''"
definition default_trigger_provider :: string where "default_trigger_provider = ''github''"
definition default_trigger_disabled :: bool where "default_trigger_disabled = False"
definition default_trigger_context :: string where "default_trigger_context = ''github''"

text \<open>
  \<open>d.Get\<close> of a field of a block: the zero value when the block is not there, the value
  of the configuration when the field is set, and the default of the schema (the zero
  value when the schema has none) when it is omitted.
\<close>

definition Get_field :: "'a \<Rightarrow> 'a \<Rightarrow> ('b \<Rightarrow> 'a option) \<Rightarrow> 'b option \<Rightarrow> 'a" where
  "Get_field zero dflt field blk =
     (case blk of
        None \<Rightarrow> zero
      | Some b \<Rightarrow> (case field b of None \<Rightarrow> dflt | Some v \<Rightarrow> v))"

definition Get_required :: "'a \<Rightarrow> ('b \<Rightarrow> 'a) \<Rightarrow> 'b option \<Rightarrow> 'a" where
  "Get_required zero field blk = (case blk of None \<Rightarrow> zero | Some b \<Rightarrow> field b)"

definition block_at :: "'b list \<Rightarrow> nat \<Rightarrow> 'b option" where
  "block_at bs idx = (if idx < length bs then Some (bs ! idx) else None)"

definition spec_0 :: "pipeline_resource \<Rightarrow> pipeline_spec_block option" where
  "spec_0 d = block_at (plr_spec d) 0"

definition spec_template_0 :: "pipeline_resource \<Rightarrow> spec_template_block option" where
  "spec_template_0 d = block_at (Get_required [] psb_spec_template (spec_0 d)) 0"

definition trigger_at :: "pipeline_resource \<Rightarrow> nat \<Rightarrow> trigger_block option" where
  "trigger_at d idx = block_at (Get_required [] psb_trigger (spec_0 d)) idx"

definition codefreshTrigger :: "(gomap \<Rightarrow> 'v) \<Rightarrow> pipeline_resource \<Rightarrow> nat \<Rightarrow> 'v Trigger" where
  "codefreshTrigger SetVariables d idx =
     \<lparr>tg_Name = Get_field '''' '''' tb_name (trigger_at d idx),
      tg_Description = Get_field '''' '''' tb_description (trigger_at d idx),
      tg_Type = Get_field '''' default_trigger_type tb_type (trigger_at d idx),
      tg_Repo = Get_field '''' '''' tb_repo (trigger_at d idx),
      tg_BranchRegex =
        Get_field '''' default_trigger_branch_regex tb_branch_regex (trigger_at d idx),
      tg_ModifiedFilesGlob =
        Get_field '''' default_trigger_modified_files_glob tb_modified_files_glob
          (trigger_at d idx),
      tg_Provider = Get_field '''' default_trigger_provider tb_provider (trigger_at d idx),
      tg_Disabled = Get_field False default_trigger_disabled tb_disabled (trigger_at d idx),
      tg_Context = Get_field '''' default_trigger_context tb_context (trigger_at d idx),
      tg_Events = Get_required [] tb_events (trigger_at d idx),
      tg_Variables = SetVariables (Get_required [] tb_variables (trigger_at d idx))\<rparr>"

text \<open>
  \<open>mapResourceToPipeline\<close>: the loop over the indices of the trigger list appends one
  trigger for each index.
\<close>

definition mapResourceToPipeline :: "(gomap \<Rightarrow> 'v) \<Rightarrow> pipeline_resource \<Rightarrow> 'v Pipeline" where
  "mapResourceToPipeline SetVariables d =
     \<lparr>pl_Metadata =
        \<lparr>md_Name = plr_name d,
         md_ProjectId = (case plr_project_id d of None \<Rightarrow> '''' | Some p \<Rightarrow> p),
         md_Labels = \<lparr>lb_Tags = plr_tags d\<rparr>\<rparr>,
      pl_Spec =
        \<lparr>sp_SpecTemplate =
           \<lparr>st_Location =
              Get_field '''' default_spec_template_location stb_location (spec_template_0 d),
            st_Repo = Get_required '''' stb_repo (spec_template_0 d),
            st_Path = Get_required '''' stb_path (spec_template_0 d),
            st_Revision = Get_required '''' stb_revision (spec_template_0 d),
            st_Context =
              Get_field '''' default_spec_template_context stb_context (spec_template_0 d)\<rparr>,
         sp_Priority = Get_field 0 default_priority psb_priority (spec_0 d),
         sp_Concurrency = Get_field 0 default_concurrency psb_concurrency (spec_0 d),
         sp_Variables = SetVariables (Get_required [] psb_variables (spec_0 d)),
         sp_Triggers =
           map (codefreshTrigger SetVariables d)
             [0 ..< length (Get_required [] psb_trigger (spec_0 d))]\<rparr>\<rparr>"

text \<open>A pipeline whose one trigger sets nothing but a name, for the examples.\<close>

definition bare_trigger :: trigger_block where
  "bare_trigger =
     \<lparr>tb_name = Some ''push'', tb_description = None, tb_type = None, tb_repo = None,
      tb_branch_regex = None, tb_modified_files_glob = None, tb_events = [],
      tb_provider = None, tb_disabled = None, tb_context = None, tb_variables = []\<rparr>"

definition example_pipeline :: pipeline_resource where
  "example_pipeline =
     \<lparr>plr_name = ''docker/docker-monorepo'', plr_project_id = None, plr_tags = [''docker''],
      plr_spec =
        [\<lparr>psb_priority = None, psb_concurrency = None, psb_spec_template = [],
          psb_variables = [], psb_trigger = [bare_trigger]\<rparr>]\<rparr>"

section \<open>Properties of the Context mappers\<close>

lemmas context_names =
  contextConfig_def contextSecret_def contextYaml_def contextSecretYaml_def
  contextGoogleStorage_def contextS3Storage_def contextAzureStorage_def

lemma type_of_renamed:
  "getContextTypeFromResource (d\<lparr>rd_name := n\<rparr>) = getContextTypeFromResource d"
  by (simp add: getContextTypeFromResource_def GetOk_data_def)

lemma GetOk_data_eq:
  "rd_spec d = [s] \<Longrightarrow>
   GetOk_data f d = (case f s of [] \<Rightarrow> None | v # _ \<Rightarrow> if v = [] then None else Some v)"
  by (simp add: GetOk_data_def)

lemma one_block_split:
  "length a + n = 1 \<Longrightarrow> (\<exists>v. a = [v] \<and> n = 0) \<or> (a = [] \<and> n = 1)"
  by (cases a) auto

lemma roundtrip_eq:
  assumes dec: "rd_decrypt_spec d \<or> \<not> contains encryptedContextTypes (getContextTypeFromResource d)"
  shows "mapContextToResource lib (mapResourceToContext lib d) d = Inr d \<longleftrightarrow>
         flattenContextSpec lib (ctx_Spec (mapResourceToContext lib d)) = rd_spec d"
proof -
  have "d\<lparr>rd_name := rd_name d\<rparr> = d" by simp
  moreover have "\<And>x. (d\<lparr>rd_spec := x\<rparr> = d) = (x = rd_spec d)"
    by (metis context_resource.select_convs(3) context_resource.surjective context_resource.update_convs(3))
  ultimately show ?thesis using dec
    by (simp add: mapContextToResource_def Set_name_def Set_spec_def mapResourceToContext_def)
qed

lemma no_variant_inj:
  "(no_variant\<lparr>sb_config := a1\<rparr> = no_variant\<lparr>sb_config := b1\<rparr>) = (a1 = b1)"
  "(no_variant\<lparr>sb_secret := a2\<rparr> = no_variant\<lparr>sb_secret := b2\<rparr>) = (a2 = b2)"
  "(no_variant\<lparr>sb_yaml := a3\<rparr> = no_variant\<lparr>sb_yaml := b3\<rparr>) = (a3 = b3)"
  "(no_variant\<lparr>sb_secret_yaml := a4\<rparr> = no_variant\<lparr>sb_secret_yaml := b4\<rparr>) = (a4 = b4)"
  "(no_variant\<lparr>sb_storage_gc := a5\<rparr> = no_variant\<lparr>sb_storage_gc := b5\<rparr>) = (a5 = b5)"
  "(no_variant\<lparr>sb_storage_s3 := a6\<rparr> = no_variant\<lparr>sb_storage_s3 := b6\<rparr>) = (a6 = b6)"
  "(no_variant\<lparr>sb_storage_azuref := a7\<rparr> = no_variant\<lparr>sb_storage_azuref := b7\<rparr>) = (a7 = b7)"
  by (simp_all add: no_variant_def)

lemmas flatten_defs =
  mapResourceToContext_def normalizedContext_def flattenContextSpec_def
  flattenContextConfig_def flattenContextYaml_def data_stable_def yaml_stable_def
  getContextTypeFromResource_def

lemma flatten_config:
  assumes "rd_spec d = [s]" "sb_config s = [v]" "sb_secret s = []" "sb_yaml s = []"
    "sb_secret_yaml s = []" "sb_storage_gc s = []" "sb_storage_s3 s = []" "sb_storage_azuref s = []"
    "getContextTypeFromResource d \<noteq> ''''"
  shows "(flattenContextSpec lib (ctx_Spec (mapResourceToContext lib d)) = rd_spec d) = data_stable lib d"
proof -
  have v: "v \<noteq> []" using assms
    by (auto simp: getContextTypeFromResource_def GetOk_data_eq split: if_splits)
  have s: "s = no_variant\<lparr>sb_config := [v]\<rparr>"
    using assms(2-8) by (simp add: no_variant_def)
  show ?thesis using v assms(1-8)
    by (simp add: flatten_defs GetOk_data_eq) (simp add: s)
qed

lemma flatten_secret:
  assumes "rd_spec d = [s]" "sb_config s = []" "sb_secret s = [v]" "sb_yaml s = []"
    "sb_secret_yaml s = []" "sb_storage_gc s = []" "sb_storage_s3 s = []" "sb_storage_azuref s = []"
    "getContextTypeFromResource d \<noteq> ''''"
  shows "(flattenContextSpec lib (ctx_Spec (mapResourceToContext lib d)) = rd_spec d) = data_stable lib d"
proof -
  have v: "v \<noteq> []" using assms
    by (auto simp: getContextTypeFromResource_def GetOk_data_eq split: if_splits)
  have s: "s = no_variant\<lparr>sb_secret := [v]\<rparr>"
    using assms(2-8) by (simp add: no_variant_def)
  show ?thesis using v assms(1-8)
    by (simp add: flatten_defs GetOk_data_eq context_names) (simp add: s)
qed

lemma flatten_yaml:
  assumes "rd_spec d = [s]" "sb_config s = []" "sb_secret s = []" "sb_yaml s = [v]" "sb_secret_yaml s = []" "sb_storage_gc s = []" "sb_storage_s3 s = []" "sb_storage_azuref s = []"
    "getContextTypeFromResource d \<noteq> ''''"
  shows "(flattenContextSpec lib (ctx_Spec (mapResourceToContext lib d)) = rd_spec d) = data_stable lib d"
proof -
  have v: "v \<noteq> []" using assms
    by (auto simp: getContextTypeFromResource_def GetOk_data_eq split: if_splits)
  have s: "s = no_variant\<lparr>sb_yaml := [v]\<rparr>"
    using assms(2-8) by (simp add: no_variant_def)
  show ?thesis using v assms(1-8)
    by (simp add: flatten_defs GetOk_data_eq context_names) (auto simp add: s no_variant_inj split: sum.splits)
qed

lemma flatten_secret_yaml:
  assumes "rd_spec d = [s]" "sb_config s = []" "sb_secret s = []" "sb_yaml s = []" "sb_secret_yaml s = [v]" "sb_storage_gc s = []" "sb_storage_s3 s = []" "sb_storage_azuref s = []"
    "getContextTypeFromResource d \<noteq> ''''"
  shows "(flattenContextSpec lib (ctx_Spec (mapResourceToContext lib d)) = rd_spec d) = data_stable lib d"
proof -
  have v: "v \<noteq> []" using assms
    by (auto simp: getContextTypeFromResource_def GetOk_data_eq split: if_splits)
  have s: "s = no_variant\<lparr>sb_secret_yaml := [v]\<rparr>"
    using assms(2-8) by (simp add: no_variant_def)
  show ?thesis using v assms(1-8)
    by (simp add: flatten_defs GetOk_data_eq context_names) (auto simp add: s no_variant_inj split: sum.splits)
qed

lemma flatten_storage_gc:
  assumes "rd_spec d = [s]" "sb_config s = []" "sb_secret s = []" "sb_yaml s = []" "sb_secret_yaml s = []" "sb_storage_gc s = [v]" "sb_storage_s3 s = []" "sb_storage_azuref s = []"
    "getContextTypeFromResource d \<noteq> ''''"
  shows "(flattenContextSpec lib (ctx_Spec (mapResourceToContext lib d)) = rd_spec d) = data_stable lib d"
proof -
  have v: "v \<noteq> []" using assms
    by (auto simp: getContextTypeFromResource_def GetOk_data_eq split: if_splits)
  have s: "s = no_variant\<lparr>sb_storage_gc := [v]\<rparr>"
    using assms(2-8) by (simp add: no_variant_def)
  show ?thesis using v assms(1-8)
    by (simp add: flatten_defs GetOk_data_eq context_names) (simp add: s no_variant_inj)
qed

lemma flatten_storage_s3:
  assumes "rd_spec d = [s]" "sb_config s = []" "sb_secret s = []" "sb_yaml s = []" "sb_secret_yaml s = []" "sb_storage_gc s = []" "sb_storage_s3 s = [v]" "sb_storage_azuref s = []"
    "getContextTypeFromResource d \<noteq> ''''"
  shows "(flattenContextSpec lib (ctx_Spec (mapResourceToContext lib d)) = rd_spec d) = data_stable lib d"
proof -
  have v: "v \<noteq> []" using assms
    by (auto simp: getContextTypeFromResource_def GetOk_data_eq split: if_splits)
  have s: "s = no_variant\<lparr>sb_storage_s3 := [v]\<rparr>"
    using assms(2-8) by (simp add: no_variant_def)
  show ?thesis using v assms(1-8)
    by (simp add: flatten_defs GetOk_data_eq context_names) (simp add: s no_variant_inj)
qed

lemma flatten_storage_azuref:
  assumes "rd_spec d = [s]" "sb_config s = []" "sb_secret s = []" "sb_yaml s = []" "sb_secret_yaml s = []" "sb_storage_gc s = []" "sb_storage_s3 s = []" "sb_storage_azuref s = [v]"
    "getContextTypeFromResource d \<noteq> ''''"
  shows "(flattenContextSpec lib (ctx_Spec (mapResourceToContext lib d)) = rd_spec d) = data_stable lib d"
proof -
  have v: "v \<noteq> []" using assms
    by (auto simp: getContextTypeFromResource_def GetOk_data_eq split: if_splits)
  have s: "s = no_variant\<lparr>sb_storage_azuref := [v]\<rparr>"
    using assms(2-8) by (simp add: no_variant_def)
  show ?thesis using v assms(1-8)
    by (simp add: flatten_defs GetOk_data_eq context_names) (simp add: s no_variant_inj)
qed

lemma flatten_one_variant:
  assumes "populates_one_variant d"
  shows "(flattenContextSpec lib (ctx_Spec (mapResourceToContext lib d)) = rd_spec d) =
         data_stable lib d"
proof -
  from assms obtain s where s: "rd_spec d = [s]"
    by (cases "rd_spec d"; cases "tl (rd_spec d)") (simp_all add: populates_one_variant_def)
  from assms s have n: "length (sb_config s) + (length (sb_secret s) + (length (sb_yaml s) +
          (length (sb_secret_yaml s) + (length (sb_storage_gc s) + (length (sb_storage_s3 s) +
          length (sb_storage_azuref s)))))) = 1"
    and t: "getContextTypeFromResource d \<noteq> ''''"
    by (simp_all add: populates_one_variant_def)
  from one_block_split [OF n] show ?thesis
  proof (elim disjE exE conjE)
    fix v assume v: "sb_config s = [v]" and z: "length (sb_secret s) + (length (sb_yaml s) +
          (length (sb_secret_yaml s) + (length (sb_storage_gc s) + (length (sb_storage_s3 s) +
          length (sb_storage_azuref s))))) = 0"
    show ?thesis
      by (rule flatten_config [OF s]) (use v z t in simp_all)
  next
    assume a: "sb_config s = []" and n: "length (sb_secret s) + (length (sb_yaml s) +
          (length (sb_secret_yaml s) + (length (sb_storage_gc s) + (length (sb_storage_s3 s) +
          length (sb_storage_azuref s))))) = 1"
    from one_block_split [OF n] show ?thesis
    proof (elim disjE exE conjE)
      fix v assume v: "sb_secret s = [v]" and z: "length (sb_yaml s) +
          (length (sb_secret_yaml s) + (length (sb_storage_gc s) + (length (sb_storage_s3 s) +
          length (sb_storage_azuref s)))) = 0"
      show ?thesis
      by (rule flatten_secret [OF s]) (use v z t a in simp_all)
    next
      assume b: "sb_secret s = []" and n: "length (sb_yaml s) +
          (length (sb_secret_yaml s) + (length (sb_storage_gc s) + (length (sb_storage_s3 s) +
          length (sb_storage_azuref s)))) = 1"
      from one_block_split [OF n] show ?thesis
      proof (elim disjE exE conjE)
        fix v assume v: "sb_yaml s = [v]" and z: "length (sb_secret_yaml s) +
          (length (sb_storage_gc s) + (length (sb_storage_s3 s) +
          length (sb_storage_azuref s))) = 0"
        show ?thesis
      by (rule flatten_yaml [OF s]) (use v z t a b in simp_all)
      next
        assume c: "sb_yaml s = []" and n: "length (sb_secret_yaml s) +
          (length (sb_storage_gc s) + (length (sb_storage_s3 s) +
          length (sb_storage_azuref s))) = 1"
        from one_block_split [OF n] show ?thesis
        proof (elim disjE exE conjE)
          fix v assume v: "sb_secret_yaml s = [v]" and z: "length (sb_storage_gc s) +
            (length (sb_storage_s3 s) + length (sb_storage_azuref s)) = 0"
          show ?thesis
      by (rule flatten_secret_yaml [OF s]) (use v z t a b c in simp_all)
        next
          assume e: "sb_secret_yaml s = []" and n: "length (sb_storage_gc s) +
            (length (sb_storage_s3 s) + length (sb_storage_azuref s)) = 1"
          from one_block_split [OF n] show ?thesis
          proof (elim disjE exE conjE)
            fix v assume v: "sb_storage_gc s = [v]"
              and z: "length (sb_storage_s3 s) + length (sb_storage_azuref s) = 0"
            show ?thesis
      by (rule flatten_storage_gc [OF s]) (use v z t a b c e in simp_all)
          next
            assume f: "sb_storage_gc s = []"
              and n: "length (sb_storage_s3 s) + length (sb_storage_azuref s) = 1"
            from one_block_split [OF n] show ?thesis
            proof (elim disjE exE conjE)
              fix v assume v: "sb_storage_s3 s = [v]" and z: "length (sb_storage_azuref s) = 0"
              show ?thesis
      by (rule flatten_storage_s3 [OF s]) (use v z t a b c e f in simp_all)
            next
              assume g: "sb_storage_s3 s = []" and "length (sb_storage_azuref s) = 1"
              then obtain v where v: "sb_storage_azuref s = [v]"
                by (cases "sb_storage_azuref s") auto
              show ?thesis
                by (rule flatten_storage_azuref [OF s]) (use v t a b c e f g in simp_all)
            qed
          qed
        qed
      qed
    qed
  qed
qed

lemma encrypted_simps:
  "contains encryptedContextTypes contextConfig = False"
  "contains encryptedContextTypes contextSecret = True"
  "contains encryptedContextTypes contextYaml = False"
  "contains encryptedContextTypes contextSecretYaml = True"
  "contains encryptedContextTypes contextGoogleStorage = False"
  "contains encryptedContextTypes contextS3Storage = True"
  "contains encryptedContextTypes contextAzureStorage = True"
  "contains encryptedContextTypes [] = False"
  by (simp_all add: contains_def encryptedContextTypes_def context_names)

text \<open>
  C1, as the code has it. For a resource that populates exactly one variant, unencrypted
  or with \<open>decrypt_spec\<close> set, mapping the resource to a Context and the Context back
  returns the resource exactly when the libraries give the data of the variant back:
  always for config and secret, for the YAML variants when marshalling the parsed string
  returns that string, for the storage variants when the flattener returns the block that
  the converter was given.
\<close>

theorem C1_roundtrip:
  assumes "populates_one_variant d"
      and "rd_decrypt_spec d \<or>
           \<not> contains encryptedContextTypes (getContextTypeFromResource d)"
  shows "(mapContextToResource lib (mapResourceToContext lib d) d = Inr d) =
         data_stable lib d"
  using roundtrip_eq [OF assms(2)] flatten_one_variant [OF assms(1)] by simp

theorem C1_roundtrip_witness:
  "populates_one_variant config_resource \<and>
   \<not> contains encryptedContextTypes (getContextTypeFromResource config_resource) \<and>
   mapContextToResource line_lib (mapResourceToContext line_lib config_resource)
     config_resource = Inr config_resource \<and>
   populates_one_variant (secret_resource True) \<and>
   contains encryptedContextTypes (getContextTypeFromResource (secret_resource True)) \<and>
   rd_decrypt_spec (secret_resource True) \<and>
   mapContextToResource line_lib (mapResourceToContext line_lib (secret_resource True))
     (secret_resource True) = Inr (secret_resource True) \<and>
   populates_one_variant (yaml_resource (''a: b'' @ [newline])) \<and>
   yaml_Marshal line_lib (unmarshal_or_nil line_lib (''a: b'' @ [newline])) =
     Inr (''a: b'' @ [newline]) \<and>
   mapContextToResource line_lib
     (mapResourceToContext line_lib (yaml_resource (''a: b'' @ [newline])))
     (yaml_resource (''a: b'' @ [newline])) = Inr (yaml_resource (''a: b'' @ [newline]))"
proof -
  have t1: "getContextTypeFromResource config_resource = contextConfig"
    by (simp add: config_resource_def getContextTypeFromResource_def GetOk_data_def
        resource_with_def no_variant_def)
  have t2: "getContextTypeFromResource (secret_resource True) = contextSecret"
    by (simp add: secret_resource_def getContextTypeFromResource_def GetOk_data_def
        resource_with_def no_variant_def)
  have p1: "populates_one_variant config_resource"
    unfolding populates_one_variant_def t1
    by (simp add: config_resource_def resource_with_def no_variant_def contextConfig_def)
  have p2: "populates_one_variant (secret_resource True)"
    unfolding populates_one_variant_def t2
    by (simp add: secret_resource_def resource_with_def no_variant_def contextSecret_def)
  have e1: "\<not> contains encryptedContextTypes (getContextTypeFromResource config_resource)"
    by (simp add: t1 encrypted_simps)
  have e2: "rd_decrypt_spec (secret_resource True)"
    by (simp add: secret_resource_def resource_with_def)
  have s1: "data_stable line_lib config_resource"
    by (simp add: data_stable_def yaml_stable_def GetOk_data_def config_resource_def
        resource_with_def no_variant_def)
  have s2: "data_stable line_lib (secret_resource True)"
    by (simp add: data_stable_def yaml_stable_def GetOk_data_def secret_resource_def
        resource_with_def no_variant_def)
  from C1_roundtrip [OF p1, of line_lib] e1 s1
  have r1: "mapContextToResource line_lib (mapResourceToContext line_lib config_resource)
     config_resource = Inr config_resource" by simp
  from C1_roundtrip [OF p2, of line_lib] e2 s2
  have r2: "mapContextToResource line_lib (mapResourceToContext line_lib (secret_resource True))
     (secret_resource True) = Inr (secret_resource True)" by simp
  have t3: "getContextTypeFromResource (yaml_resource (''a: b'' @ [newline])) = contextYaml"
    by (simp add: yaml_resource_def getContextTypeFromResource_def GetOk_data_def
        resource_with_def no_variant_def)
  have p3: "populates_one_variant (yaml_resource (''a: b'' @ [newline]))"
    unfolding populates_one_variant_def t3
    by (simp add: yaml_resource_def resource_with_def no_variant_def contextYaml_def)
  have e3: "\<not> contains encryptedContextTypes
      (getContextTypeFromResource (yaml_resource (''a: b'' @ [newline])))"
    using t3 by (simp add: encrypted_simps)
  have y: "yaml_Marshal line_lib (unmarshal_or_nil line_lib (''a: b'' @ [newline])) =
     Inr (''a: b'' @ [newline])"
    by (simp add: line_lib_def unmarshal_or_nil_def line_Unmarshal_def chomp_def
        line_Marshal_def newline_def)
  have s3: "data_stable line_lib (yaml_resource (''a: b'' @ [newline]))"
    using y
    by (simp add: data_stable_def yaml_stable_def GetOk_data_def yaml_resource_def
        resource_with_def no_variant_def)
  from C1_roundtrip [OF p3, of line_lib] e3 s3
  have r3: "mapContextToResource line_lib
     (mapResourceToContext line_lib (yaml_resource (''a: b'' @ [newline])))
     (yaml_resource (''a: b'' @ [newline])) = Inr (yaml_resource (''a: b'' @ [newline]))"
    by simp
  show ?thesis using p1 p2 p3 e1 e2 r1 r2 r3 y by (simp add: t2 encrypted_simps)
qed

text \<open>
  C1 as the specification states it fails on the YAML variant: the string \<open>a: b\<close>
  without a final newline is read into the map of \<open>a\<close> to \<open>b\<close> and written back with
  the newline, so the resource that comes back differs from the one that went in.
\<close>

theorem C1_roundtrip_counterexample:
  "populates_one_variant (yaml_resource ''a: b'') \<and>
   \<not> contains encryptedContextTypes (getContextTypeFromResource (yaml_resource ''a: b'')) \<and>
   mapContextToResource line_lib (mapResourceToContext line_lib (yaml_resource ''a: b''))
     (yaml_resource ''a: b'') = Inr (yaml_resource (''a: b'' @ [newline])) \<and>
   mapContextToResource line_lib (mapResourceToContext line_lib (yaml_resource ''a: b''))
     (yaml_resource ''a: b'') \<noteq> Inr (yaml_resource ''a: b'')"
proof -
  have t: "getContextTypeFromResource (yaml_resource ''a: b'') = contextYaml"
    by (simp add: yaml_resource_def getContextTypeFromResource_def GetOk_data_def
        resource_with_def no_variant_def)
  have p: "populates_one_variant (yaml_resource ''a: b'')"
    unfolding populates_one_variant_def t
    by (simp add: yaml_resource_def resource_with_def no_variant_def contextYaml_def)
  have u: "line_Unmarshal ''a: b'' = Inr (Some [(''a'', VStr ''b'')])"
    by (simp add: line_Unmarshal_def chomp_def newline_def)
  have m: "line_Marshal (Some [(''a'', VStr ''b'')]) = Inr (''a: b'' @ [newline])"
    by (simp add: line_Marshal_def)
  have c: "mapResourceToContext line_lib (yaml_resource ''a: b'') =
      \<lparr>ctx_Metadata = \<lparr>cm_Name = ''ctx''\<rparr>,
       ctx_Spec = \<lparr>cs_Type = contextYaml, cs_Data = Some [(''a'', VStr ''b'')]\<rparr>\<rparr>"
    by (simp add: mapResourceToContext_def normalizedContext_def GetOk_data_def
        yaml_resource_def resource_with_def no_variant_def unmarshal_or_nil_def line_lib_def u)
  have r: "mapContextToResource line_lib (mapResourceToContext line_lib (yaml_resource ''a: b''))
     (yaml_resource ''a: b'') = Inr (yaml_resource (''a: b'' @ [newline]))"
    unfolding c
    by (simp add: mapContextToResource_def Set_name_def Set_spec_def type_of_renamed t
        encrypted_simps flattenContextSpec_def flattenContextYaml_def context_names
        line_lib_def m)
       (simp add: yaml_resource_def resource_with_def)
  have n: "yaml_resource (''a: b'' @ [newline]) \<noteq> yaml_resource ''a: b''"
    by (simp add: yaml_resource_def resource_with_def no_variant_def)
  show ?thesis using p r n by (simp add: t encrypted_simps)
qed

text \<open>
  C2. When the variant that the resource populates is one of the encrypted kinds and
  \<open>decrypt_spec\<close> is false, \<open>mapContextToResource\<close> succeeds, sets the name and leaves
  the \<open>spec\<close> of the resource as it was, whatever Context the service returned.
\<close>

theorem C2_encrypted_spec_untouched:
  assumes "contains encryptedContextTypes (getContextTypeFromResource d)"
      and "\<not> rd_decrypt_spec d"
  shows "mapContextToResource lib c d = Inr (d\<lparr>rd_name := cm_Name (ctx_Metadata c)\<rparr>) \<and>
         (\<exists>d'. mapContextToResource lib c d = Inr d' \<and> rd_spec d' = rd_spec d)"
  using assms by (simp add: mapContextToResource_def Set_name_def type_of_renamed)

theorem C2_encrypted_spec_untouched_witness:
  "contains encryptedContextTypes (getContextTypeFromResource (secret_resource False)) \<and>
   \<not> rd_decrypt_spec (secret_resource False) \<and>
   mapContextToResource line_lib
     \<lparr>ctx_Metadata = \<lparr>cm_Name = ''ctx''\<rparr>,
      ctx_Spec = \<lparr>cs_Type = contextSecret, cs_Data = Some [(''k'', VStr ''*****'')]\<rparr>\<rparr>
     (secret_resource False) = Inr (secret_resource False)"
proof -
  have t: "getContextTypeFromResource (secret_resource False) = contextSecret"
    by (simp add: secret_resource_def getContextTypeFromResource_def GetOk_data_def
        resource_with_def no_variant_def)
  have e: "contains encryptedContextTypes (getContextTypeFromResource (secret_resource False))"
    by (simp add: t encrypted_simps)
  have f: "\<not> rd_decrypt_spec (secret_resource False)"
    by (simp add: secret_resource_def resource_with_def)
  have n: "(secret_resource False)\<lparr>rd_name := ''ctx''\<rparr> = secret_resource False"
    by (simp add: secret_resource_def resource_with_def)
  from C2_encrypted_spec_untouched [OF e f, of line_lib
      "\<lparr>ctx_Metadata = \<lparr>cm_Name = ''ctx''\<rparr>,
        ctx_Spec = \<lparr>cs_Type = contextSecret, cs_Data = Some [(''k'', VStr ''*****'')]\<rparr>\<rparr>"]
  show ?thesis using e f by (simp add: n)
qed

lemma first_populated:
  "getContextTypeFromResource d =
     (case filter (variant_populated d) contextPrecedence of [] \<Rightarrow> '''' | k # _ \<Rightarrow> k)"
  by (simp add: getContextTypeFromResource_def contextPrecedence_def variant_populated_def
      context_names)

lemma filter_only:
  assumes "distinct xs" and "k \<in> set xs" and "P k"
      and "\<forall>k' \<in> set xs. k' \<noteq> k \<longrightarrow> \<not> P k'"
  shows "filter P xs = [k]"
  using assms
proof (induction xs)
  case Nil
  then show ?case by simp
next
  case (Cons x xs)
  show ?case
  proof (cases "x = k")
    case True
    with Cons.prems have "\<forall>y \<in> set xs. \<not> P y" by auto
    then have "filter P xs = []" by (simp add: filter_empty_conv)
    with True Cons.prems show ?thesis by simp
  next
    case False
    with Cons.prems have "\<not> P x" and "k \<in> set xs" by auto
    with Cons show ?thesis by simp
  qed
qed

lemma distinct_precedence: "distinct contextPrecedence"
  by (simp add: contextPrecedence_def context_names)

text \<open>
  C3. \<open>getContextTypeFromResource\<close> returns the first populated variant in the order
  config, secret, yaml, secret-yaml, storage.gc, storage.s3, storage.azuref: the one
  populated variant when there is exactly one, the empty string when there is none.
\<close>

theorem C3_variant_detector:
  "contextPrecedence =
     [''config'', ''secret'', ''yaml'', ''secret-yaml'', ''storage.gc'', ''storage.s3'',
      ''storage.azuref''] \<and>
   getContextTypeFromResource d =
     (case filter (variant_populated d) contextPrecedence of [] \<Rightarrow> '''' | k # _ \<Rightarrow> k) \<and>
   (k \<in> set contextPrecedence \<and> variant_populated d k \<and>
    (\<forall>k' \<in> set contextPrecedence. k' \<noteq> k \<longrightarrow> \<not> variant_populated d k') \<longrightarrow>
    getContextTypeFromResource d = k) \<and>
   ((\<forall>k' \<in> set contextPrecedence. \<not> variant_populated d k') \<longrightarrow>
    getContextTypeFromResource d = '''')"
proof (intro conjI impI)
  show "contextPrecedence =
     [''config'', ''secret'', ''yaml'', ''secret-yaml'', ''storage.gc'', ''storage.s3'',
      ''storage.azuref'']"
    by (simp add: contextPrecedence_def context_names)
  show "getContextTypeFromResource d =
     (case filter (variant_populated d) contextPrecedence of [] \<Rightarrow> '''' | k # _ \<Rightarrow> k)"
    by (rule first_populated)
next
  assume "k \<in> set contextPrecedence \<and> variant_populated d k \<and>
    (\<forall>k' \<in> set contextPrecedence. k' \<noteq> k \<longrightarrow> \<not> variant_populated d k')"
  then have "filter (variant_populated d) contextPrecedence = [k]"
    by (intro filter_only distinct_precedence) simp_all
  then show "getContextTypeFromResource d = k"
    by (simp add: first_populated)
next
  assume "\<forall>k' \<in> set contextPrecedence. \<not> variant_populated d k'"
  then have "filter (variant_populated d) contextPrecedence = []"
    by (simp add: filter_empty_conv)
  then show "getContextTypeFromResource d = ''''"
    by (simp add: first_populated)
qed

lemma populated_yaml_secret:
  "variant_populated
     (resource_with True (no_variant\<lparr>sb_yaml := [''a: b''], sb_secret := [[(''k'', VStr ''v'')]]\<rparr>))
     k = (k = contextSecret \<or> k = contextYaml)"
  by (simp add: variant_populated_def GetOk_data_def resource_with_def no_variant_def
      context_names)

lemma populated_s3:
  "variant_populated (storage_s3_resource True) k = (k = contextS3Storage)"
  by (simp add: variant_populated_def GetOk_data_def storage_s3_resource_def resource_with_def
      no_variant_def context_names)

lemma populated_none:
  "variant_populated (resource_with True no_variant) k = False"
  by (simp add: variant_populated_def GetOk_data_def resource_with_def no_variant_def)

theorem C3_variant_detector_witness:
  "filter (variant_populated (storage_s3_resource True)) contextPrecedence =
     [contextS3Storage] \<and>
   getContextTypeFromResource (storage_s3_resource True) = ''storage.s3'' \<and>
   filter (variant_populated (resource_with True no_variant)) contextPrecedence = [] \<and>
   getContextTypeFromResource (resource_with True no_variant) = '''' \<and>
   filter (variant_populated
     (resource_with True (no_variant\<lparr>sb_yaml := [''a: b''], sb_secret := [[(''k'', VStr ''v'')]]\<rparr>)))
     contextPrecedence = [contextSecret, contextYaml] \<and>
   getContextTypeFromResource
     (resource_with True (no_variant\<lparr>sb_yaml := [''a: b''], sb_secret := [[(''k'', VStr ''v'')]]\<rparr>))
     = ''secret''"
proof -
  have m: "contextS3Storage \<in> set contextPrecedence"
    by (simp add: contextPrecedence_def)
  have a: "getContextTypeFromResource (storage_s3_resource True) = contextS3Storage"
    using C3_variant_detector
      [of "storage_s3_resource True" contextS3Storage, THEN conjunct2, THEN conjunct2,
       THEN conjunct1] m
    by (simp add: populated_s3)
  have b: "getContextTypeFromResource (resource_with True no_variant) = ''''"
    using C3_variant_detector
      [of "resource_with True no_variant" "''''", THEN conjunct2, THEN conjunct2,
       THEN conjunct2]
    by (simp add: populated_none)
  have c: "getContextTypeFromResource
     (resource_with True (no_variant\<lparr>sb_yaml := [''a: b''], sb_secret := [[(''k'', VStr ''v'')]]\<rparr>))
     = ''secret''"
    using C3_variant_detector
      [of "resource_with True (no_variant\<lparr>sb_yaml := [''a: b''], sb_secret := [[(''k'', VStr ''v'')]]\<rparr>)" "''''",
       THEN conjunct2, THEN conjunct1]
    by (simp add: populated_yaml_secret contextPrecedence_def context_names)
  show ?thesis using a b c
    by (simp add: populated_s3 populated_none populated_yaml_secret contextPrecedence_def
        context_names)
qed

text \<open>
  C10. \<open>mapResourceToContext\<close> has no error result. When the resource selects the yaml
  or the secret-yaml variant and the YAML library fails on the data string, the Context
  it returns carries the type of the variant and the nil map as data.
\<close>

theorem C10_yaml_error_discarded:
  "(getContextTypeFromResource d = contextYaml \<and> GetOk_data sb_yaml d = Some s \<and>
    yaml_Unmarshal lib s = Inl err \<longrightarrow>
    mapResourceToContext lib d =
      \<lparr>ctx_Metadata = \<lparr>cm_Name = rd_name d\<rparr>,
       ctx_Spec = \<lparr>cs_Type = ''yaml'', cs_Data = None\<rparr>\<rparr>) \<and>
   (getContextTypeFromResource d = contextSecretYaml \<and>
    GetOk_data sb_secret_yaml d = Some s \<and> yaml_Unmarshal lib s = Inl err \<longrightarrow>
    mapResourceToContext lib d =
      \<lparr>ctx_Metadata = \<lparr>cm_Name = rd_name d\<rparr>,
       ctx_Spec = \<lparr>cs_Type = ''secret-yaml'', cs_Data = None\<rparr>\<rparr>)"
  by (auto simp: getContextTypeFromResource_def mapResourceToContext_def
      normalizedContext_def unmarshal_or_nil_def context_names split: if_splits)

theorem C10_yaml_error_discarded_witness:
  "getContextTypeFromResource (yaml_resource ''a b'') = contextYaml \<and>
   GetOk_data sb_yaml (yaml_resource ''a b'') = Some ''a b'' \<and>
   yaml_Unmarshal line_lib ''a b'' = Inl (Error ''yaml: cannot unmarshal'') \<and>
   mapResourceToContext line_lib (yaml_resource ''a b'') =
     \<lparr>ctx_Metadata = \<lparr>cm_Name = ''ctx''\<rparr>,
      ctx_Spec = \<lparr>cs_Type = ''yaml'', cs_Data = None\<rparr>\<rparr> \<and>
   getContextTypeFromResource (secret_yaml_resource False ''a b'') = contextSecretYaml \<and>
   GetOk_data sb_secret_yaml (secret_yaml_resource False ''a b'') = Some ''a b'' \<and>
   mapResourceToContext line_lib (secret_yaml_resource False ''a b'') =
     \<lparr>ctx_Metadata = \<lparr>cm_Name = ''ctx''\<rparr>,
      ctx_Spec = \<lparr>cs_Type = ''secret-yaml'', cs_Data = None\<rparr>\<rparr>"
proof -
  have t1: "getContextTypeFromResource (yaml_resource ''a b'') = contextYaml"
    by (simp add: yaml_resource_def getContextTypeFromResource_def GetOk_data_def
        resource_with_def no_variant_def)
  have g1: "GetOk_data sb_yaml (yaml_resource ''a b'') = Some ''a b''"
    by (simp add: yaml_resource_def GetOk_data_def resource_with_def no_variant_def)
  have t2: "getContextTypeFromResource (secret_yaml_resource False ''a b'') = contextSecretYaml"
    by (simp add: secret_yaml_resource_def getContextTypeFromResource_def GetOk_data_def
        resource_with_def no_variant_def)
  have g2: "GetOk_data sb_secret_yaml (secret_yaml_resource False ''a b'') = Some ''a b''"
    by (simp add: secret_yaml_resource_def GetOk_data_def resource_with_def no_variant_def)
  have u: "yaml_Unmarshal line_lib ''a b'' = Inl (Error ''yaml: cannot unmarshal'')"
    by (simp add: line_lib_def line_Unmarshal_def chomp_def newline_def)
  have n1: "rd_name (yaml_resource ''a b'') = ''ctx''"
    by (simp add: yaml_resource_def resource_with_def)
  have n2: "rd_name (secret_yaml_resource False ''a b'') = ''ctx''"
    by (simp add: secret_yaml_resource_def resource_with_def)
  from C10_yaml_error_discarded [of "yaml_resource ''a b''" "''a b''" line_lib
      "Error ''yaml: cannot unmarshal''"]
    C10_yaml_error_discarded [of "secret_yaml_resource False ''a b''" "''a b''" line_lib
      "Error ''yaml: cannot unmarshal''"]
  show ?thesis using t1 g1 t2 g2 u by (simp add: n1 n2 context_names)
qed

section \<open>Properties of the Permission resource\<close>

lemma read_calls:
  "snd (resourcePermissionRead client d) = [] \<or>
   snd (resourcePermissionRead client d) = [CallGetPermissionByID (pr_Id d)]"
  by (simp add: resourcePermissionRead_def Let_def split: sum.splits option.splits)

lemma read_filters:
  "filter is_delete (snd (resourcePermissionRead client d)) = []"
  "filter is_create (snd (resourcePermissionRead client d)) = []"
  "filter is_update_tags (snd (resourcePermissionRead client d)) = []"
  "sent_permissions (snd (resourcePermissionRead client d)) = []"
  using read_calls [of client d] by (auto simp: sent_permissions_def)

lemma read_ignores_delete:
  "resourcePermissionRead (client\<lparr>DeletePermission := del\<rparr>) d = resourcePermissionRead client d"
  by (simp add: resourcePermissionRead_def Let_def)

lemma update_recreate:
  assumes "HasChanges d [''team'', ''action'', ''related_resource'', ''resource'', ''rule_type'']"
  shows "\<exists>rest. snd (resourcePermissionUpdate client d) =
           CallDeletePermission (pr_Id d) # CallCreatePermission (mapResourceToPermission d) # rest \<and>
           (rest = [] \<or> (\<exists>i. rest = [CallGetPermissionByID i]))"
  using assms read_calls [of client]
  by (auto simp: resourcePermissionUpdate_def resourcePermissionDelete_def Let_def
      split: sum.splits option.splits)

lemma update_tags_only:
  assumes "\<not> HasChanges d [''team'', ''action'', ''related_resource'', ''resource'', ''rule_type'']"
      and "HasChange d ''tags''"
  shows "\<exists>rest. snd (resourcePermissionUpdate client d) =
           CallUpdatePermissionTags (mapResourceToPermission d) # rest \<and>
           (rest = [] \<or> (\<exists>i. rest = [CallGetPermissionByID i]))"
  using assms read_calls [of client d]
  by (auto simp: resourcePermissionUpdate_def Let_def split: option.splits)

text \<open>
  C4. When none of team, action, related_resource, resource and rule_type changed and
  tags did, \<open>resourcePermissionUpdate\<close> starts with the call of \<open>UpdatePermissionTags\<close>,
  which is its only update call, and makes no delete and no create call. When one of the
  five changed, its first two calls are \<open>DeletePermission\<close> of the identity and
  \<open>CreatePermission\<close> of the mapped permission, and they are its only delete and create
  calls; the result and the calls are the same whatever the delete call answers, so a
  failing delete neither stops the create nor is returned.
\<close>

theorem C4_permission_update_calls:
  "(\<not> HasChanges d [''team'', ''action'', ''related_resource'', ''resource'', ''rule_type''] \<and>
    HasChange d ''tags'' \<longrightarrow>
      hd (snd (resourcePermissionUpdate client d)) =
        CallUpdatePermissionTags (mapResourceToPermission d) \<and>
      length (filter is_update_tags (snd (resourcePermissionUpdate client d))) = 1 \<and>
      filter is_delete (snd (resourcePermissionUpdate client d)) = [] \<and>
      filter is_create (snd (resourcePermissionUpdate client d)) = []) \<and>
   (HasChanges d [''team'', ''action'', ''related_resource'', ''resource'', ''rule_type''] \<longrightarrow>
      take 2 (snd (resourcePermissionUpdate client d)) =
        [CallDeletePermission (pr_Id d), CallCreatePermission (mapResourceToPermission d)] \<and>
      length (filter is_delete (snd (resourcePermissionUpdate client d))) = 1 \<and>
      length (filter is_create (snd (resourcePermissionUpdate client d))) = 1 \<and>
      filter is_update_tags (snd (resourcePermissionUpdate client d)) = [] \<and>
      resourcePermissionUpdate (client\<lparr>DeletePermission := del\<rparr>) d =
        resourcePermissionUpdate client d)"
proof (intro conjI impI)
  assume a: "\<not> HasChanges d [''team'', ''action'', ''related_resource'', ''resource'', ''rule_type''] \<and>
    HasChange d ''tags''"
  from update_tags_only [of d client] a obtain rest where
    r: "snd (resourcePermissionUpdate client d) =
          CallUpdatePermissionTags (mapResourceToPermission d) # rest"
    and "rest = [] \<or> (\<exists>i. rest = [CallGetPermissionByID i])"
    by blast
  then have f: "filter is_update_tags rest = []" "filter is_delete rest = []"
    "filter is_create rest = []"
    by auto
  show "hd (snd (resourcePermissionUpdate client d)) =
        CallUpdatePermissionTags (mapResourceToPermission d)"
    by (simp add: r)
  show "length (filter is_update_tags (snd (resourcePermissionUpdate client d))) = 1"
    by (simp add: r f)
  show "filter is_delete (snd (resourcePermissionUpdate client d)) = []"
    by (simp add: r f)
  show "filter is_create (snd (resourcePermissionUpdate client d)) = []"
    by (simp add: r f)
next
  assume a: "HasChanges d [''team'', ''action'', ''related_resource'', ''resource'', ''rule_type'']"
  from update_recreate [OF a, of client] obtain rest where
    r: "snd (resourcePermissionUpdate client d) =
          CallDeletePermission (pr_Id d) #
          CallCreatePermission (mapResourceToPermission d) # rest"
    and "rest = [] \<or> (\<exists>i. rest = [CallGetPermissionByID i])"
    by blast
  then have f: "filter is_update_tags rest = []" "filter is_delete rest = []"
    "filter is_create rest = []"
    by auto
  show "take 2 (snd (resourcePermissionUpdate client d)) =
        [CallDeletePermission (pr_Id d), CallCreatePermission (mapResourceToPermission d)]"
    by (simp add: r)
  show "length (filter is_delete (snd (resourcePermissionUpdate client d))) = 1"
    by (simp add: r f)
  show "length (filter is_create (snd (resourcePermissionUpdate client d))) = 1"
    by (simp add: r f)
  show "filter is_update_tags (snd (resourcePermissionUpdate client d)) = []"
    by (simp add: r f)
  show "resourcePermissionUpdate (client\<lparr>DeletePermission := del\<rparr>) d =
        resourcePermissionUpdate client d"
    using a
    by (simp add: resourcePermissionUpdate_def resourcePermissionDelete_def
        read_ignores_delete Let_def split: sum.splits option.splits)
qed

lemma example_changes:
  "HasChanges (example_permission tags [''tags''])
     [''team'', ''action'', ''related_resource'', ''resource'', ''rule_type''] = False"
  "HasChange (example_permission tags [''tags'']) ''tags'' = True"
  "HasChanges (example_permission tags [''team''])
     [''team'', ''action'', ''related_resource'', ''resource'', ''rule_type''] = True"
  by (simp_all add: HasChanges_def HasChange_def example_permission_def)

theorem C4_permission_update_calls_witness:
  "snd (resourcePermissionUpdate echo_client (example_permission [''a''] [''tags''])) =
     [CallUpdatePermissionTags (mapResourceToPermission (example_permission [''a''] [''tags''])),
      CallGetPermissionByID ''old-id''] \<and>
   length (filter is_update_tags
     (snd (resourcePermissionUpdate echo_client (example_permission [''a''] [''tags''])))) = 1 \<and>
   snd (resourcePermissionUpdate failing_delete_client (example_permission [''a''] [''team''])) =
     [CallDeletePermission ''old-id'',
      CallCreatePermission (mapResourceToPermission (example_permission [''a''] [''team''])),
      CallGetPermissionByID ''new-id''] \<and>
   DeletePermission failing_delete_client ''old-id'' \<noteq> None \<and>
   resourcePermissionUpdate failing_delete_client (example_permission [''a''] [''team'']) =
     resourcePermissionUpdate echo_client (example_permission [''a''] [''team''])"
proof -
  have c1: "snd (resourcePermissionUpdate echo_client (example_permission [''a''] [''tags''])) =
     [CallUpdatePermissionTags (mapResourceToPermission (example_permission [''a''] [''tags''])),
      CallGetPermissionByID ''old-id'']"
    by (simp add: resourcePermissionUpdate_def example_changes Let_def echo_client_def
        resourcePermissionRead_def mapPermissionToResource_def)
       (simp add: example_permission_def)
  have c2: "snd (resourcePermissionUpdate failing_delete_client
       (example_permission [''a''] [''team''])) =
     [CallDeletePermission ''old-id'',
      CallCreatePermission (mapResourceToPermission (example_permission [''a''] [''team''])),
      CallGetPermissionByID ''new-id'']"
    by (simp add: resourcePermissionUpdate_def example_changes Let_def echo_client_def
        failing_delete_client_def resourcePermissionRead_def resourcePermissionDelete_def
        mapPermissionToResource_def)
       (simp add: example_permission_def)
  have e: "failing_delete_client = echo_client
     \<lparr>DeletePermission := (\<lambda>i. Some (Error ''500 Internal Server Error, ''))\<rparr>"
    by (simp add: failing_delete_client_def)
  note t1 = C4_permission_update_calls
    [of "example_permission [''a''] [''tags'']" echo_client "\<lambda>i. None", THEN conjunct1]
  note t2 = C4_permission_update_calls
    [of "example_permission [''a''] [''team'']" echo_client
        "\<lambda>i. Some (Error ''500 Internal Server Error, '')", THEN conjunct2]
  from t1 have l: "length (filter is_update_tags
     (snd (resourcePermissionUpdate echo_client (example_permission [''a''] [''tags''])))) = 1"
    by (simp add: example_changes)
  from t2 have i: "resourcePermissionUpdate failing_delete_client
       (example_permission [''a''] [''team'']) =
     resourcePermissionUpdate echo_client (example_permission [''a''] [''team''])"
    by (simp add: example_changes e)
  have d: "DeletePermission failing_delete_client ''old-id'' \<noteq> None"
    by (simp add: failing_delete_client_def)
  show ?thesis using c1 c2 l i d by simp
qed

text \<open>
  C5. \<open>resourcePermissionCustomDiff\<close> takes the planned values only; it has no client and
  makes no call. When resource or related_resource changed, a non-empty related_resource
  with a resource other than pipeline is refused; when resource or action changed, an
  action among run, approve and debug with a resource other than pipeline is refused;
  action run with resource pipeline passes.
\<close>

theorem C5_permission_validation:
  "(HasChanges d [''resource'', ''related_resource''] \<and> pr_related_resource d \<noteq> '''' \<and>
    pr_resource d \<noteq> ''pipeline'' \<longrightarrow>
      resourcePermissionCustomDiff d =
        Some (Error (''related_resource is only valid when resource is '' @
                     quoted ''pipeline''))) \<and>
   (HasChanges d [''resource'', ''action''] \<and>
    pr_action d \<in> {''run'', ''approve'', ''debug''} \<and> pr_resource d \<noteq> ''pipeline'' \<longrightarrow>
      resourcePermissionCustomDiff d \<in>
        {Some (Error (''related_resource is only valid when resource is '' @
                      quoted ''pipeline'')),
         Some (Error (''action '' @ pr_action d @ '' is only valid when resource is '' @
                      quoted ''pipeline''))}) \<and>
   (pr_action d = ''run'' \<and> pr_resource d = ''pipeline'' \<longrightarrow>
      resourcePermissionCustomDiff d = None)"
  by (simp add: resourcePermissionCustomDiff_def)

theorem C5_permission_validation_witness:
  "resourcePermissionCustomDiff
     ((example_permission [] [''related_resource''])
        \<lparr>pr_resource := ''cluster'', pr_related_resource := ''project'', pr_action := ''read''\<rparr>) =
     Some (Error (''related_resource is only valid when resource is '' @
                  [CHR 0x27] @ ''pipeline'' @ [CHR 0x27])) \<and>
   resourcePermissionCustomDiff
     ((example_permission [] [''action''])\<lparr>pr_resource := ''cluster''\<rparr>) =
     Some (Error (''action run is only valid when resource is '' @
                  [CHR 0x27] @ ''pipeline'' @ [CHR 0x27])) \<and>
   resourcePermissionCustomDiff (example_permission [] [''action'', ''resource'']) = None"
proof -
  let ?a = "(example_permission [] [''related_resource''])
        \<lparr>pr_resource := ''cluster'', pr_related_resource := ''project'', pr_action := ''read''\<rparr>"
  let ?b = "(example_permission [] [''action''])\<lparr>pr_resource := ''cluster''\<rparr>"
  let ?c = "example_permission [] [''action'', ''resource'']"
  have a: "HasChanges ?a [''resource'', ''related_resource'']"
    "pr_related_resource ?a \<noteq> ''''" "pr_resource ?a \<noteq> ''pipeline''"
    by (simp_all add: HasChanges_def HasChange_def example_permission_def)
  have b: "HasChanges ?b [''resource'', ''action'']" "pr_action ?b = ''run''"
    "pr_resource ?b \<noteq> ''pipeline''" "\<not> HasChanges ?b [''resource'', ''related_resource'']"
    by (simp_all add: HasChanges_def HasChange_def example_permission_def)
  have c: "pr_action ?c = ''run''" "pr_resource ?c = ''pipeline''"
    by (simp_all add: example_permission_def)
  have rb: "resourcePermissionCustomDiff ?b \<noteq>
     Some (Error (''related_resource is only valid when resource is '' @ quoted ''pipeline''))"
    using b by (simp add: resourcePermissionCustomDiff_def)
  from C5_permission_validation [of ?a, THEN conjunct1] a
  have 1: "resourcePermissionCustomDiff ?a =
     Some (Error (''related_resource is only valid when resource is '' @
                  [CHR 0x27] @ ''pipeline'' @ [CHR 0x27]))"
    by (simp add: quoted_def)
  from C5_permission_validation [of ?b, THEN conjunct2, THEN conjunct1] b rb
  have 2: "resourcePermissionCustomDiff ?b =
     Some (Error (''action run is only valid when resource is '' @
                  [CHR 0x27] @ ''pipeline'' @ [CHR 0x27]))"
    by (simp add: quoted_def)
  from C5_permission_validation [of ?c, THEN conjunct2, THEN conjunct2] c
  have 3: "resourcePermissionCustomDiff ?c = None"
    by simp
  show ?thesis using 1 2 3 by simp
qed

lemma create_sent:
  "sent_permissions (snd (resourcePermissionCreate client d)) = [mapResourceToPermission d]"
  by (simp add: resourcePermissionCreate_def Let_def sent_permissions_def
      read_filters [unfolded sent_permissions_def] split: sum.splits option.splits)

lemma update_sent:
  "set (sent_permissions (snd (resourcePermissionUpdate client d))) \<subseteq>
     {mapResourceToPermission d}"
  by (simp add: resourcePermissionUpdate_def resourcePermissionDelete_def Let_def
      sent_permissions_def read_filters [unfolded sent_permissions_def]
      split: sum.splits option.splits)

lemma mapped_tags_nonempty: "pm_Tags (mapResourceToPermission d) \<noteq> []"
  by (simp add: mapResourceToPermission_def)

text \<open>
  C9. When the tags of the resource are empty, the permission that
  \<open>mapResourceToPermission\<close> builds has the tags \<open>*\<close> and \<open>untagged\<close>; the tags of the
  permission it builds are never empty, and so are those of every permission that the
  create and the update operation send to the service.
\<close>

theorem C9_default_tags:
  "(pr_tags d = [] \<longrightarrow> pm_Tags (mapResourceToPermission d) = [''*'', ''untagged'']) \<and>
   pm_Tags (mapResourceToPermission d) \<noteq> [] \<and>
   (\<forall>p \<in> set (sent_permissions (snd (resourcePermissionCreate client d))) \<union>
          set (sent_permissions (snd (resourcePermissionUpdate client d))).
      pm_Tags p \<noteq> [])"
  using update_sent [of client d]
  by (auto simp: create_sent mapped_tags_nonempty) (simp add: mapResourceToPermission_def)

theorem C9_default_tags_witness:
  "pr_tags (example_permission [] [''team'']) = [] \<and>
   pm_Tags (mapResourceToPermission (example_permission [] [''team''])) = [''*'', ''untagged''] \<and>
   sent_permissions (snd (resourcePermissionUpdate echo_client (example_permission [] [''team''])))
     = [mapResourceToPermission (example_permission [] [''team''])] \<and>
   list_all (\<lambda>p. pm_Tags p \<noteq> [])
     (sent_permissions (snd (resourcePermissionUpdate echo_client
        (example_permission [] [''team'']))))"
proof -
  have e: "pr_tags (example_permission [] [''team'']) = []"
    by (simp add: example_permission_def)
  have s: "sent_permissions
     (snd (resourcePermissionUpdate echo_client (example_permission [] [''team''])))
     = [mapResourceToPermission (example_permission [] [''team''])]"
    by (simp add: resourcePermissionUpdate_def example_changes Let_def echo_client_def
        resourcePermissionRead_def resourcePermissionDelete_def mapPermissionToResource_def
        sent_permissions_def)
  from C9_default_tags [of "example_permission [] [''team'']" echo_client]
  show ?thesis using e by (simp add: s list_all_iff)
qed

section \<open>Properties of the API client and of the Pipeline mapper\<close>

lemma sublist_message:
  "sublist s (s @ sep @ b)" "sublist b (s @ sep @ b)"
  using sublist_append_rightI [of s "sep @ b"] sublist_append_leftI [of b "s @ sep"]
  by simp_all

lemma sublist_message_cons:
  "sublist b (s @ x # y # b)"
  using sublist_message(2) [of b s "[x, y]"] by simp

text \<open>
  C6, as the code has it. When the request is accepted and the transport answers with a
  response whose body is read to the end: if the status code is not 200, \<open>RequestAPI\<close>
  returns no bytes but the error whose message is the status text, a comma and a blank,
  and the body as it came, so the message contains both; if the status code is 200 it
  returns the whole body and no error. When reading the body fails, whatever the status
  code, it returns no bytes but the error that names the status code and the status text.
\<close>

theorem C6_status_and_body_in_error:
  "NewRequest http (Method opt) (finalURL client opt) = None \<and>
   Do http (request_of client opt) = Inr resp \<longrightarrow>
     (rs_Body resp = Inr body \<and> StatusCode resp \<noteq> 200 \<longrightarrow>
        (\<exists>msg. fst (RequestAPI http client opt) = Inl (Error msg) \<and>
               msg = Status resp @ '', '' @ body \<and>
               sublist (Status resp) msg \<and> sublist body msg)) \<and>
     (rs_Body resp = Inr body \<and> StatusCode resp = 200 \<longrightarrow>
        fst (RequestAPI http client opt) = Inr body) \<and>
     (rs_Body resp = Inl err \<longrightarrow>
        (\<exists>msg. fst (RequestAPI http client opt) = Inl (Error msg) \<and>
               msg = ''Failed to read body '' @ format_int (StatusCode resp) @ '' '' @
                     Status resp \<and>
               sublist (Status resp) msg))"
proof (intro impI conjI)
  assume a: "NewRequest http (Method opt) (finalURL client opt) = None \<and>
   Do http (request_of client opt) = Inr resp"
  {
    assume "rs_Body resp = Inr body \<and> StatusCode resp \<noteq> 200"
    with a show "\<exists>msg. fst (RequestAPI http client opt) = Inl (Error msg) \<and>
               msg = Status resp @ '', '' @ body \<and>
               sublist (Status resp) msg \<and> sublist body msg"
      by (simp add: RequestAPI_def Let_def sublist_message_cons)
  }
  {
    assume "rs_Body resp = Inr body \<and> StatusCode resp = 200"
    with a show "fst (RequestAPI http client opt) = Inr body"
      by (simp add: RequestAPI_def Let_def)
  }
  {
    assume "rs_Body resp = Inl err"
    moreover have "sublist (Status resp)
       ((''Failed to read body '' @ format_int (StatusCode resp) @ '' '') @ Status resp)"
      by (rule sublist_append_leftI)
    ultimately show "\<exists>msg. fst (RequestAPI http client opt) = Inl (Error msg) \<and>
               msg = ''Failed to read body '' @ format_int (StatusCode resp) @ '' '' @
                     Status resp \<and>
               sublist (Status resp) msg"
      using a by (simp add: RequestAPI_def Let_def)
  }
qed

lemma decimal_502: "decimal 502 = ''502''"
proof -
  have "decimal 5 = ''5''" by (subst decimal.simps) simp
  then have "decimal 50 = ''50''" by (subst decimal.simps) simp
  then show ?thesis by (subst decimal.simps) simp
qed

theorem C6_status_and_body_in_error_witness:
  "fst (RequestAPI (answering not_found) example_client example_options) =
     Inl (Error ''404 Not Found, {\"message\":\"not found\"}'') \<and>
   sublist ''404 Not Found'' ''404 Not Found, {\"message\":\"not found\"}'' \<and>
   sublist ''{\"message\":\"not found\"}'' ''404 Not Found, {\"message\":\"not found\"}'' \<and>
   fst (RequestAPI (answering found) example_client example_options) =
     Inr ''{\"id\":\"1\"}'' \<and>
   fst (RequestAPI (answering cut_off) example_client example_options) =
     Inl (Error ''Failed to read body 502 502 Bad Gateway'')"
proof -
  have a: "NewRequest (answering r) (Method example_options)
             (finalURL example_client example_options) = None"
    "Do (answering r) (request_of example_client example_options) = Inr r" for r
    by (simp_all add: answering_def)
  have b: "rs_Body not_found = Inr ''{\"message\":\"not found\"}''"
    "StatusCode not_found \<noteq> 200" "Status not_found = ''404 Not Found''"
    "rs_Body found = Inr ''{\"id\":\"1\"}''" "StatusCode found = 200"
    "rs_Body cut_off = Inl (Error ''unexpected EOF'')" "Status cut_off = ''502 Bad Gateway''"
    "format_int (StatusCode cut_off) = ''502''"
    by (simp_all add: not_found_def found_def cut_off_def format_int_def decimal_502)
  from C6_status_and_body_in_error
    [of "answering not_found" example_options example_client not_found
        "''{\"message\":\"not found\"}''", THEN mp, THEN conjunct1] a b
  have 1: "fst (RequestAPI (answering not_found) example_client example_options) =
     Inl (Error ''404 Not Found, {\"message\":\"not found\"}'') \<and>
     sublist ''404 Not Found'' ''404 Not Found, {\"message\":\"not found\"}'' \<and>
     sublist ''{\"message\":\"not found\"}'' ''404 Not Found, {\"message\":\"not found\"}''"
    by simp
  from C6_status_and_body_in_error
    [of "answering found" example_options example_client found "''{\"id\":\"1\"}''",
     THEN mp, THEN conjunct2, THEN conjunct1] a b
  have 2: "fst (RequestAPI (answering found) example_client example_options) =
     Inr ''{\"id\":\"1\"}''"
    by simp
  from C6_status_and_body_in_error
    [of "answering cut_off" example_options example_client cut_off _
        "Error ''unexpected EOF''", THEN mp, THEN conjunct2, THEN conjunct2] a b
  have 3: "fst (RequestAPI (answering cut_off) example_client example_options) =
     Inl (Error ''Failed to read body 502 502 Bad Gateway'')"
    by simp
  show ?thesis using 1 2 3 by simp
qed

lemma decimal_200: "decimal 200 = ''200''"
proof -
  have "decimal 2 = ''2''" by (subst decimal.simps) simp
  then have "decimal 20 = ''20''" by (subst decimal.simps) simp
  then show ?thesis by (subst decimal.simps) simp
qed

text \<open>
  C6 as the specification states it fails on a response whose body cannot be read to the
  end: the read is checked before the status code, so for a response with the status
  code 200 and a failing read \<open>RequestAPI\<close> returns the error \<open>Failed to read body\<close> and
  no bytes, and for a response with status code 502 and a failing read the error holds
  no body.
\<close>

theorem C6_status_and_body_in_error_counterexample:
  "NewRequest (answering cut_off_ok) (Method example_options)
     (finalURL example_client example_options) = None \<and>
   Do (answering cut_off_ok) (request_of example_client example_options) = Inr cut_off_ok \<and>
   StatusCode cut_off_ok = 200 \<and>
   fst (RequestAPI (answering cut_off_ok) example_client example_options) =
     Inl (Error ''Failed to read body 200 200 OK'') \<and>
   StatusCode cut_off \<noteq> 200 \<and>
   fst (RequestAPI (answering cut_off) example_client example_options) =
     Inl (Error ''Failed to read body 502 502 Bad Gateway'')"
  by (simp add: RequestAPI_def answering_def cut_off_ok_def cut_off_def format_int_def
      decimal_200 decimal_502)

lemma header_lookup:
  "map_of (Header_Set k v h) k = Some v"
  "k' \<noteq> k \<Longrightarrow> map_of (Header_Set k v h) k' = map_of h k'"
  by (induction h) (auto simp: Header_Set_def)

text \<open>
  C8. The request that \<open>RequestAPI\<close> builds has as URL the host followed by the path and,
  when the query map is not nil, by a question mark and the entries \<open>key=value\<close> joined
  by \<open>&\<close>, each key and value as it is given; its \<open>Authorization\<close> header is the token
  and its \<open>Content-Type\<close> header is \<open>application/json; charset=utf-8\<close>. It is the only
  request that \<open>RequestAPI\<close> hands to the transport.
\<close>

theorem C8_request_construction:
  "rq_URL (request_of client opt) =
     Host client @ Path opt @
       (case QS opt of
          None \<Rightarrow> ''''
        | Some qs \<Rightarrow> ''?'' @ join ''&'' (map (\<lambda>(k, v). k @ ''='' @ v) qs)) \<and>
   map_of (rq_Header (request_of client opt)) ''Authorization'' = Some (Token client) \<and>
   map_of (rq_Header (request_of client opt)) ''Content-Type'' =
     Some ''application/json; charset=utf-8'' \<and>
   rq_Method (request_of client opt) = Method opt \<and>
   rq_Body (request_of client opt) = Body opt \<and>
   (snd (RequestAPI http client opt) = [] \<or>
    snd (RequestAPI http client opt) = [request_of client opt])"
proof (intro conjI)
  show "rq_URL (request_of client opt) =
     Host client @ Path opt @
       (case QS opt of
          None \<Rightarrow> ''''
        | Some qs \<Rightarrow> ''?'' @ join ''&'' (map (\<lambda>(k, v). k @ ''='' @ v) qs))"
    by (simp add: request_of_def finalURL_def ToQS_def split: option.splits)
  show "map_of (rq_Header (request_of client opt)) ''Authorization'' = Some (Token client)"
    by (simp add: request_of_def header_lookup)
  show "map_of (rq_Header (request_of client opt)) ''Content-Type'' =
     Some ''application/json; charset=utf-8''"
    by (simp add: request_of_def header_lookup)
  show "rq_Method (request_of client opt) = Method opt"
    by (simp add: request_of_def)
  show "rq_Body (request_of client opt) = Body opt"
    by (simp add: request_of_def)
  show "snd (RequestAPI http client opt) = [] \<or>
    snd (RequestAPI http client opt) = [request_of client opt]"
    by (simp add: RequestAPI_def Let_def split: option.splits sum.splits)
qed

theorem C8_request_construction_witness:
  "rq_URL (request_of example_client example_options) =
     ''https://g.codefresh.io/api/pipelines?limit=1 0&q=a&b'' \<and>
   rq_Header (request_of example_client example_options) =
     [(''Authorization'', ''secret-token''),
      (''Content-Type'', ''application/json; charset=utf-8'')] \<and>
   snd (RequestAPI (answering found) example_client example_options) =
     [request_of example_client example_options]"
proof -
  note t = C8_request_construction [of example_client example_options "answering found"]
  from t [THEN conjunct1]
  have 1: "rq_URL (request_of example_client example_options) =
     ''https://g.codefresh.io/api/pipelines?limit=1 0&q=a&b''"
    by (simp add: example_client_def example_options_def)
  have 2: "rq_Header (request_of example_client example_options) =
     [(''Authorization'', ''secret-token''),
      (''Content-Type'', ''application/json; charset=utf-8'')]"
    by (simp add: request_of_def Header_Set_def example_client_def)
  have 3: "snd (RequestAPI (answering found) example_client example_options) =
     [request_of example_client example_options]"
    by (simp add: RequestAPI_def answering_def found_def)
  show ?thesis using 1 2 3 by simp
qed

text \<open>
  C7. When the first trigger block of the configuration sets neither \<open>type\<close> nor
  \<open>branch_regex\<close>, the first trigger of the Pipeline that \<open>mapResourceToPipeline\<close> builds
  has the type \<open>git\<close> and the branch filter \<open>/.*/gi\<close>, the defaults of the schema.
\<close>

theorem C7_trigger_defaults:
  "plr_spec d = s # ss \<and> psb_trigger s = t # ts \<and> tb_type t = None \<and>
   tb_branch_regex t = None \<longrightarrow>
     sp_Triggers (pl_Spec (mapResourceToPipeline SetVariables d)) \<noteq> [] \<and>
     tg_Type (sp_Triggers (pl_Spec (mapResourceToPipeline SetVariables d)) ! 0) = ''git'' \<and>
     tg_BranchRegex (sp_Triggers (pl_Spec (mapResourceToPipeline SetVariables d)) ! 0) =
       ''/.*/gi''"
proof
  assume a: "plr_spec d = s # ss \<and> psb_trigger s = t # ts \<and> tb_type t = None \<and>
   tb_branch_regex t = None"
  then have s0: "spec_0 d = Some s"
    by (simp add: spec_0_def block_at_def)
  with a have n: "Get_required [] psb_trigger (spec_0 d) = t # ts"
    by (simp add: Get_required_def)
  then have t0: "trigger_at d 0 = Some t"
    by (simp add: trigger_at_def block_at_def)
  have m: "sp_Triggers (pl_Spec (mapResourceToPipeline SetVariables d)) =
      map (codefreshTrigger SetVariables d) [0 ..< Suc (length ts)]"
    by (simp add: mapResourceToPipeline_def n)
  have h: "sp_Triggers (pl_Spec (mapResourceToPipeline SetVariables d)) ! 0 =
      codefreshTrigger SetVariables d 0"
    unfolding m by (simp del: upt_Suc)
  show "sp_Triggers (pl_Spec (mapResourceToPipeline SetVariables d)) \<noteq> [] \<and>
     tg_Type (sp_Triggers (pl_Spec (mapResourceToPipeline SetVariables d)) ! 0) = ''git'' \<and>
     tg_BranchRegex (sp_Triggers (pl_Spec (mapResourceToPipeline SetVariables d)) ! 0) =
       ''/.*/gi''"
    unfolding h using a
    by (simp add: m codefreshTrigger_def t0 Get_field_def default_trigger_type_def
        default_trigger_branch_regex_def del: upt_Suc)
qed

theorem C7_trigger_defaults_witness:
  "tb_type bare_trigger = None \<and> tb_branch_regex bare_trigger = None \<and>
   map (\<lambda>t. (tg_Name t, tg_Type t, tg_BranchRegex t))
     (sp_Triggers (pl_Spec (mapResourceToPipeline (\<lambda>m. m) example_pipeline))) =
     [(''push'', ''git'', ''/.*/gi'')]"
proof -
  have a: "plr_spec example_pipeline =
     \<lparr>psb_priority = None, psb_concurrency = None, psb_spec_template = [],
      psb_variables = [], psb_trigger = [bare_trigger]\<rparr> # []"
    by (simp add: example_pipeline_def)
  have b: "tb_type bare_trigger = None" "tb_branch_regex bare_trigger = None"
    by (simp_all add: bare_trigger_def)
  have l: "length (sp_Triggers (pl_Spec (mapResourceToPipeline (\<lambda>m. m) example_pipeline))) = 1"
    by (simp add: mapResourceToPipeline_def spec_0_def block_at_def Get_required_def
        example_pipeline_def)
  have n: "tg_Name (sp_Triggers (pl_Spec (mapResourceToPipeline (\<lambda>m. m) example_pipeline)) ! 0)
      = ''push''"
    by (simp add: mapResourceToPipeline_def spec_0_def block_at_def Get_required_def
        example_pipeline_def codefreshTrigger_def trigger_at_def Get_field_def bare_trigger_def)
  from l obtain x where x: "sp_Triggers (pl_Spec (mapResourceToPipeline (\<lambda>m. m) example_pipeline))
      = [x]"
    by (cases "sp_Triggers (pl_Spec (mapResourceToPipeline (\<lambda>m. m) example_pipeline))") auto
  from C7_trigger_defaults
    [of example_pipeline
        "\<lparr>psb_priority = None, psb_concurrency = None, psb_spec_template = [],
          psb_variables = [], psb_trigger = [bare_trigger]\<rparr>" "[]" bare_trigger "[]"
        "\<lambda>m. m"] a b n
  show ?thesis by (simp add: x)
qed

end
